theory Spec2Isabelle
  imports Complex_Main "HOL-Library.AList"
begin

section \<open>Data model (types)\<close>

text \<open>
  The TypeScript interfaces of the front end become records, its enums become datatypes.
  Several interfaces share field names (\<open>id\<close>, \<open>name\<close>, \<open>status\<close>, \<open>completed_at\<close>), so
  every field carries a prefix naming its interface: \<open>c_\<close> for \<open>ClientInput\<close>/\<open>Client\<close>,
  \<open>u_\<close> for \<open>Partial<Client>\<close>, \<open>s_\<close> for \<open>OnboardingStep\<close>, \<open>p_\<close> for \<open>OnboardingProgress\<close>,
  \<open>m_\<close> for the WebSocket messages, \<open>d_\<close> for a message's \<open>data\<close> payload.
  A JavaScript \<open>string\<close> is a \<open>string\<close> here (a list of characters, one per UTF-16 code
  unit, so that \<open>length\<close> is the source's \<open>.length\<close>); a \<open>number\<close> is a \<open>real\<close> (JSON carries
  neither NaN nor infinities); an optional property \<open>f?: T\<close> is a \<open>T option\<close>, \<open>None\<close> for
  an absent (undefined) property.
\<close>

datatype ProjectType = WEB_DEVELOPMENT | MOBILE_APP | DESIGN | MARKETING | CONSULTING | OTHER

datatype ClientStatus = PENDING | IN_PROGRESS | COMPLETED | FAILED

record ClientInput =
  c_name :: string
  c_email :: string
  c_company :: "string option"
  c_phone :: "string option"
  c_project_type :: ProjectType
  c_project_scope :: string
  c_budget_range :: "string option"
  c_timeline :: "string option"
  c_additional_notes :: "string option"

record Client = ClientInput +
  c_id :: string
  c_status :: ClientStatus
  c_created_at :: string
  c_updated_at :: string
  c_drive_folder_id :: "string option"
  c_contract_doc_id :: "string option"
  c_slack_channel_id :: "string option"
  c_github_repo_url :: "string option"
  c_notion_board_id :: "string option"
  c_stripe_customer_id :: "string option"
  c_invoice_id :: "string option"

text \<open>
  \<open>Partial<Client>\<close>: every property of \<open>Client\<close> may be absent (\<open>None\<close>). A property that
  is optional in \<open>Client\<close> may also be present with the value \<open>undefined\<close> (\<open>Some None\<close>).
\<close>

record ClientPartial =
  u_name :: "string option"
  u_email :: "string option"
  u_company :: "string option option"
  u_phone :: "string option option"
  u_project_type :: "ProjectType option"
  u_project_scope :: "string option"
  u_budget_range :: "string option option"
  u_timeline :: "string option option"
  u_additional_notes :: "string option option"
  u_id :: "string option"
  u_status :: "ClientStatus option"
  u_created_at :: "string option"
  u_updated_at :: "string option"
  u_drive_folder_id :: "string option option"
  u_contract_doc_id :: "string option option"
  u_slack_channel_id :: "string option option"
  u_github_repo_url :: "string option option"
  u_notion_board_id :: "string option option"
  u_stripe_customer_id :: "string option option"
  u_invoice_id :: "string option option"

text \<open>
  A value of type \<open>any\<close> inside a \<open>Record<string, any>\<close>: a JSON value. An object keeps its
  keys in insertion order, so it is an association list.
\<close>

datatype jsval =
    JNull
  | JBool bool
  | JNum real
  | JStr string
  | JArr "jsval list"
  | JObj "(string \<times> jsval) list"

type_synonym jsobject = "(string \<times> jsval) list"

text \<open>
  \<open>OnboardingStep.status\<close> is declared as the union of the four literals below, but the
  message handler stores \<open>step_status\<close>, a \<open>string\<close>, into it through a cast to \<open>any\<close>: the
  field holds whatever string the message carried, so it is a \<open>string\<close>.
\<close>

definition pending :: string where "pending = ''pending''"
definition in_progress :: string where "in_progress = ''in_progress''"
definition completed :: string where "completed = ''completed''"
definition failed :: string where "failed = ''failed''"

record OnboardingStep =
  s_id :: string
  s_name :: string
  s_description :: string
  s_status :: string
  s_started_at :: "string option"
  s_completed_at :: "string option"
  s_error_message :: "string option"
  s_metadata :: "jsobject option"

record OnboardingProgress =
  p_client_id :: string
  p_steps :: "OnboardingStep list"
  p_current_step :: real
  p_overall_status :: ClientStatus
  p_started_at :: "string option"
  p_completed_at :: "string option"
  p_progress_percentage :: real

section \<open>The store (onboardingStore.ts)\<close>

datatype View = landing | form | orchestration | complete | dashboard

record OnboardingState =
  currentClient :: "Client option"
  currentProgress :: "OnboardingProgress option"
  isOnboardingActive :: bool
  currentView :: View
  showOnboardingModal :: bool
  isLoading :: bool
  error :: "string option"
  isConnected :: bool
  clients :: "Client list"

definition initialState :: OnboardingState where
  "initialState =
     \<lparr> currentClient = None, currentProgress = None, isOnboardingActive = False,
       currentView = landing, showOnboardingModal = False, isLoading = False,
       error = None, isConnected = False, clients = [] \<rparr>"

definition setCurrentClient :: "Client option \<Rightarrow> OnboardingState \<Rightarrow> OnboardingState" where
  "setCurrentClient client st = st\<lparr>currentClient := client\<rparr>"

definition setCurrentProgress :: "OnboardingProgress option \<Rightarrow> OnboardingState \<Rightarrow> OnboardingState" where
  "setCurrentProgress progress st = st\<lparr>currentProgress := progress\<rparr>"

definition setCurrentView :: "View \<Rightarrow> OnboardingState \<Rightarrow> OnboardingState" where
  "setCurrentView view st = st\<lparr>currentView := view\<rparr>"

definition setError :: "string option \<Rightarrow> OnboardingState \<Rightarrow> OnboardingState" where
  "setError e st = st\<lparr>error := e\<rparr>"

text \<open>
  \<open>Array.prototype.findIndex\<close>: the index of the first element satisfying the predicate,
  \<open>-1\<close> when there is none.
\<close>

fun findIndex :: "('a \<Rightarrow> bool) \<Rightarrow> 'a list \<Rightarrow> int" where
  "findIndex P [] = - 1"
| "findIndex P (x # xs) =
     (if P x then 0 else (let i = findIndex P xs in if i < 0 then - 1 else i + 1))"

text \<open>
  \<open>addClient\<close>: replaces the first client with the same id in a copy of the list, or puts
  the client in front. The assignment \<open>updatedClients[existingIndex] = client\<close> is always
  in range, \<open>existingIndex\<close> being an index \<open>findIndex\<close> returned.
\<close>

definition addClient :: "Client \<Rightarrow> OnboardingState \<Rightarrow> OnboardingState" where
  "addClient client st =
     (let cs = clients st;
          existingIndex = findIndex (\<lambda>c. c_id c = c_id client) cs
      in if existingIndex \<ge> 0
         then st\<lparr>clients := cs[nat existingIndex := client]\<rparr>
         else st\<lparr>clients := client # cs\<rparr>)"

text \<open>The object spread \<open>{ ...client, ...updates }\<close>: a property present in \<open>updates\<close> wins.\<close>

definition spread :: "'a \<Rightarrow> 'a option \<Rightarrow> 'a" where
  "spread old upd = (case upd of None \<Rightarrow> old | Some v \<Rightarrow> v)"

definition mergeClient :: "Client \<Rightarrow> ClientPartial \<Rightarrow> Client" where
  "mergeClient client updates =
     \<lparr> c_name = spread (c_name client) (u_name updates),
       c_email = spread (c_email client) (u_email updates),
       c_company = spread (c_company client) (u_company updates),
       c_phone = spread (c_phone client) (u_phone updates),
       c_project_type = spread (c_project_type client) (u_project_type updates),
       c_project_scope = spread (c_project_scope client) (u_project_scope updates),
       c_budget_range = spread (c_budget_range client) (u_budget_range updates),
       c_timeline = spread (c_timeline client) (u_timeline updates),
       c_additional_notes = spread (c_additional_notes client) (u_additional_notes updates),
       c_id = spread (c_id client) (u_id updates),
       c_status = spread (c_status client) (u_status updates),
       c_created_at = spread (c_created_at client) (u_created_at updates),
       c_updated_at = spread (c_updated_at client) (u_updated_at updates),
       c_drive_folder_id = spread (c_drive_folder_id client) (u_drive_folder_id updates),
       c_contract_doc_id = spread (c_contract_doc_id client) (u_contract_doc_id updates),
       c_slack_channel_id = spread (c_slack_channel_id client) (u_slack_channel_id updates),
       c_github_repo_url = spread (c_github_repo_url client) (u_github_repo_url updates),
       c_notion_board_id = spread (c_notion_board_id client) (u_notion_board_id updates),
       c_stripe_customer_id = spread (c_stripe_customer_id client) (u_stripe_customer_id updates),
       c_invoice_id = spread (c_invoice_id client) (u_invoice_id updates) \<rparr>"

text \<open>
  \<open>updateClient\<close>: two \<open>set\<close> calls. The second reads \<open>currentClient\<close> from the store after
  the first, which changed \<open>clients\<close> only. \<open>currentClient?.id === clientId\<close> is false for a
  null \<open>currentClient\<close>.
\<close>

definition updateClient :: "string \<Rightarrow> ClientPartial \<Rightarrow> OnboardingState \<Rightarrow> OnboardingState" where
  "updateClient clientId updates st =
     (let updatedClients =
            map (\<lambda>client. if c_id client = clientId then mergeClient client updates else client)
              (clients st);
          st1 = st\<lparr>clients := updatedClients\<rparr>
      in case currentClient st1 of
           None \<Rightarrow> st1
         | Some cc \<Rightarrow>
             if c_id cc = clientId
             then st1\<lparr>currentClient := Some (mergeClient cc updates)\<rparr>
             else st1)"

definition reset :: "OnboardingState \<Rightarrow> OnboardingState" where
  "reset st =
     st\<lparr> currentClient := None, currentProgress := None, isOnboardingActive := False,
        currentView := landing, showOnboardingModal := False, isLoading := False,
        error := None \<rparr>"

section \<open>WebSocket messages (types)\<close>

text \<open>
  \<open>WebSocketMessage.data\<close> is a \<open>Record<string, any>\<close>; the record below holds the three
  entries the message handler reads. \<open>d_metadata\<close> is \<open>None\<close> when \<open>data.metadata\<close> is absent
  (or another falsy value: the handler tests it with \<open>&&\<close>), \<open>d_current_step\<close> is \<open>None\<close> when
  \<open>data.current_step\<close> is \<open>undefined\<close>.
\<close>

record MessageData =
  d_metadata :: "jsobject option"
  d_current_step :: "real option"
  d_message :: "string option"

record CompletionData =
  cd_completed_at :: "string option"

text \<open>
  The handler switches on \<open>type\<close> and then reads the message through a cast to
  \<open>StepUpdateMessage\<close>, \<open>ApprovalRequestMessage\<close> or \<open>OnboardingCompleteMessage\<close>; one record
  holds the fields of \<open>WebSocketMessage\<close> and of its three extensions. A field that the
  interface of the message's type does not declare is never read.
\<close>

record WebSocketMessage =
  m_type :: string
  m_client_id :: string
  m_data :: MessageData
  m_timestamp :: string
  m_step_id :: string
  m_step_status :: string
  m_progress_percentage :: real
  m_approval_data :: jsobject
  m_completion_data :: CompletionData

section \<open>The message handler of the home page\<close>

definition noUpdates :: ClientPartial where
  "noUpdates =
     \<lparr> u_name = None, u_email = None, u_company = None, u_phone = None,
       u_project_type = None, u_project_scope = None, u_budget_range = None,
       u_timeline = None, u_additional_notes = None, u_id = None, u_status = None,
       u_created_at = None, u_updated_at = None, u_drive_folder_id = None,
       u_contract_doc_id = None, u_slack_channel_id = None, u_github_repo_url = None,
       u_notion_board_id = None, u_stripe_customer_id = None, u_invoice_id = None \<rparr>"

text \<open>The \<open>step_update\<close> case: the callback mapped over \<open>currentProgress.steps\<close>.\<close>

definition stepUpdateStep :: "WebSocketMessage \<Rightarrow> OnboardingStep \<Rightarrow> OnboardingStep" where
  "stepUpdateStep stepUpdate step =
     (if s_id step = m_step_id stepUpdate
      then step\<lparr> s_status := m_step_status stepUpdate,
                 s_metadata := (case d_metadata (m_data stepUpdate) of
                                  None \<Rightarrow> s_metadata step
                                | Some md \<Rightarrow> Some md) \<rparr>
      else step)"

text \<open>
  The \<open>approval_request\<close> case: \<open>{ ...step.metadata, approval_data: ... }\<close> keeps the
  entries of the old metadata (none when it is undefined) and sets the key
  \<open>approval_data\<close>, in place when the key exists, at the end otherwise.
\<close>

definition approvalRequestStep :: "WebSocketMessage \<Rightarrow> OnboardingStep \<Rightarrow> OnboardingStep" where
  "approvalRequestStep approvalRequest step =
     (if s_id step = m_step_id approvalRequest
      then step\<lparr> s_status := in_progress,
                 s_metadata := Some (AList.update ''approval_data''
                                       (JObj (m_approval_data approvalRequest))
                                       (case s_metadata step of None \<Rightarrow> [] | Some md \<Rightarrow> md)) \<rparr>
      else step)"

text \<open>
  The effect of \<open>HomePage\<close> that handles \<open>lastMessage\<close>. It returns at once without a
  message or without a current client id (\<open>!currentClient?.id\<close>: no client, or the empty
  id). \<open>now1\<close> and \<open>now2\<close> are the two readings of the clock
  (\<open>new Date().toISOString()\<close>) of the \<open>onboarding_complete\<close> case. The values of
  \<open>currentClient\<close> and \<open>currentProgress\<close> the effect closes over are those of the store
  when it runs. A \<open>switch\<close> without a \<open>default\<close>: any other type falls through.
\<close>

definition handleMessage ::
  "string \<Rightarrow> string \<Rightarrow> WebSocketMessage option \<Rightarrow> OnboardingState \<Rightarrow> OnboardingState" where
  "handleMessage now1 now2 lastMessage st =
     (case lastMessage of
        None \<Rightarrow> st
      | Some msg \<Rightarrow>
         (case currentClient st of
            None \<Rightarrow> st
          | Some cc \<Rightarrow>
             if c_id cc = [] then st
             else if m_type msg = ''step_update'' then
               (case currentProgress st of
                  None \<Rightarrow> st
                | Some cp \<Rightarrow>
                    let updatedSteps = map (stepUpdateStep msg) (p_steps cp);
                        updatedProgress =
                          cp\<lparr> p_steps := updatedSteps,
                              p_progress_percentage := m_progress_percentage msg,
                              p_current_step := (case d_current_step (m_data msg) of
                                                   None \<Rightarrow> p_current_step cp
                                                 | Some k \<Rightarrow> k) \<rparr>
                    in setCurrentProgress (Some updatedProgress) st)
             else if m_type msg = ''approval_request'' then
               (case currentProgress st of
                  None \<Rightarrow> st
                | Some cp \<Rightarrow>
                    let updatedSteps = map (approvalRequestStep msg) (p_steps cp)
                    in setCurrentProgress (Some (cp\<lparr>p_steps := updatedSteps\<rparr>)) st)
             else if m_type msg = ''onboarding_complete'' then
               (let st1 = (case currentProgress st of
                             None \<Rightarrow> st
                           | Some cp \<Rightarrow>
                               setCurrentProgress
                                 (Some (cp\<lparr> p_overall_status := COMPLETED,
                                            p_progress_percentage := 100,
                                            p_completed_at :=
                                              cd_completed_at (m_completion_data msg) \<rparr>)) st);
                    updatedClient = cc\<lparr>c_status := COMPLETED, c_updated_at := now1\<rparr>;
                    st2 = setCurrentClient (Some updatedClient) st1;
                    st3 = updateClient (c_id cc)
                            (noUpdates\<lparr>u_status := Some COMPLETED, u_updated_at := Some now2\<rparr>)
                            st2
                in setCurrentView complete st3)
             else if m_type msg = ''error'' then
               setError
                 (Some (case d_message (m_data msg) of
                          None \<Rightarrow> ''An error occurred during onboarding''
                        | Some t \<Rightarrow>
                            if t = [] then ''An error occurred during onboarding'' else t))
                 st
             else st))"

text \<open>
  When the handler runs: the hook keeps the messages in one cell, \<open>lastMessage\<close>, which
  every delivery overwrites, and the effect runs after a render in which \<open>lastMessage\<close> or
  the current client id differs from the render before. So a message overwritten before
  the page renders is never handled, and the message in the cell is handled again when
  the client id changes. What is stated below about the handler holds of each of its
  runs.
\<close>

text \<open>
  \<open>useWebSocketHandlers\<close>: the effect dispatches on the type to the callbacks it was given
  (each optional, here a flag saying whether it was passed) and logs any other type.
\<close>

datatype HandlerCall =
    OnStepUpdate MessageData
  | OnApprovalRequest MessageData
  | OnOnboardingComplete MessageData
  | OnError MessageData
  | LogUnhandled string

definition useWebSocketHandlers ::
  "bool \<Rightarrow> bool \<Rightarrow> bool \<Rightarrow> bool \<Rightarrow> WebSocketMessage option \<Rightarrow> HandlerCall list" where
  "useWebSocketHandlers onStepUpdate onApprovalRequest onOnboardingComplete onError lastMessage =
     (case lastMessage of
        None \<Rightarrow> []
      | Some msg \<Rightarrow>
          if m_type msg = ''step_update'' then
            (if onStepUpdate then [OnStepUpdate (m_data msg)] else [])
          else if m_type msg = ''approval_request'' then
            (if onApprovalRequest then [OnApprovalRequest (m_data msg)] else [])
          else if m_type msg = ''onboarding_complete'' then
            (if onOnboardingComplete then [OnOnboardingComplete (m_data msg)] else [])
          else if m_type msg = ''error'' then
            (if onError then [OnError (m_data msg)] else [])
          else [LogUnhandled (m_type msg)])"

section \<open>The status dashboard (StatusDashboard.tsx)\<close>

definition completedSteps :: "OnboardingProgress \<Rightarrow> nat" where
  "completedSteps progress =
     length (filter (\<lambda>step. s_status step = completed) (p_steps progress))"

definition totalSteps :: "OnboardingProgress \<Rightarrow> nat" where
  "totalSteps progress = length (p_steps progress)"

text \<open>The percentage shown: \<open>Math.round(progress.progress_percentage)\<close>, halves rounded up.\<close>

definition shownPercentage :: "OnboardingProgress \<Rightarrow> int" where
  "shownPercentage progress = \<lfloor>p_progress_percentage progress + 1 / 2\<rfloor>"

text \<open>
  What the dashboard renders for one step: the \<open>isActive\<close> and \<open>isCompleted\<close> properties of
  its \<open>ProgressStep\<close>, and whether the "Review & Approve" button stands under it.
\<close>

record StepView =
  v_index :: nat
  v_isActive :: bool
  v_isCompleted :: bool
  v_approvalButton :: bool

definition renderStep :: "OnboardingProgress \<Rightarrow> nat \<Rightarrow> OnboardingStep \<Rightarrow> StepView" where
  "renderStep progress index step =
     \<lparr> v_index = index,
       v_isActive = (real index = p_current_step progress),
       v_isCompleted = (s_status step = completed),
       v_approvalButton = (s_id step = ''human_approval'' \<and> s_status step = in_progress) \<rparr>"

definition renderSteps :: "OnboardingProgress \<Rightarrow> StepView list" where
  "renderSteps progress =
     map (\<lambda>(index, step). renderStep progress index step) (enumerate 0 (p_steps progress))"

text \<open>Without a progress the dashboard renders the waiting placeholder, and no step.\<close>

definition StatusDashboard :: "OnboardingProgress option \<Rightarrow> StepView list" where
  "StatusDashboard progress = (case progress of None \<Rightarrow> [] | Some p \<Rightarrow> renderSteps p)"

definition approvalOffered :: "OnboardingProgress option \<Rightarrow> bool" where
  "approvalOffered progress = list_ex v_approvalButton (StatusDashboard progress)"

text \<open>
  The formula of the specification for the percentage, in the specification's words:
  \<open>round(100 * count(steps where status == completed) / len(steps))\<close>.
\<close>

definition spec_progress_percentage :: "OnboardingProgress \<Rightarrow> real" where
  "spec_progress_percentage progress =
     real_of_int (round (100 * real (completedSteps progress) / real (totalSteps progress)))"

section \<open>The intake form (ClientForm)\<close>

text \<open>
  \<open>clientFormSchema\<close>: the issues the schema raises on an intake, in the order of its
  fields, each with its field and message; the intake passes when there is none.
  \<open>isEmail\<close> is the check behind \<open>z.string().email()\<close>: it belongs to the validation
  library, not to this repository, and is a parameter. \<open>project_type\<close> is checked by
  \<open>z.nativeEnum(ProjectType)\<close>, which every value of the type passes; the optional
  fields without a bound accept every string and the absent value.
\<close>

definition clientFormSchema :: "(string \<Rightarrow> bool) \<Rightarrow> ClientInput \<Rightarrow> (string \<times> string) list" where
  "clientFormSchema isEmail d =
     (if length (c_name d) < 2
      then [(''name'', ''Name must be at least 2 characters'')] else []) @
     (if length (c_name d) > 100
      then [(''name'', ''Name must be less than 100 characters'')] else []) @
     (if \<not> isEmail (c_email d)
      then [(''email'', ''Please enter a valid email address'')] else []) @
     (if length (c_project_scope d) < 10
      then [(''project_scope'', ''Project scope must be at least 10 characters'')] else []) @
     (if length (c_project_scope d) > 1000
      then [(''project_scope'', ''Project scope must be less than 1000 characters'')] else []) @
     (case c_additional_notes d of
        None \<Rightarrow> []
      | Some notes \<Rightarrow>
          if length notes > 500
          then [(''additional_notes'', ''Additional notes must be less than 500 characters'')]
          else [])"

text \<open>
  Submitting the form, \<open>handleSubmit(onFormSubmit)\<close> with the schema as resolver: with
  issues, they become the form's errors and \<open>onFormSubmit\<close> does not run; without,
  \<open>onFormSubmit\<close> calls \<open>onSubmit(data)\<close> once and resets the form unless \<open>isLoading\<close>.
\<close>

record SubmitOutcome =
  onSubmitCalls :: "ClientInput list"
  formErrors :: "(string \<times> string) list"
  formReset :: bool

definition handleSubmit :: "(string \<Rightarrow> bool) \<Rightarrow> bool \<Rightarrow> ClientInput \<Rightarrow> SubmitOutcome" where
  "handleSubmit isEmail loading d =
     (let issues = clientFormSchema isEmail d
      in if issues = []
         then \<lparr> onSubmitCalls = [d], formErrors = [], formReset = (\<not> loading) \<rparr>
         else \<lparr> onSubmitCalls = [], formErrors = issues, formReset = False \<rparr>)"

section \<open>The WebSocket hook (useWebSocket.ts)\<close>

datatype ReadyState = CONNECTING | OPEN | CLOSING | CLOSED

text \<open>
  A socket the hook constructed: the \<open>clientId\<close> its handlers close over, its URL and its
  \<open>readyState\<close>. The hook's state: the two \<open>useState\<close> cells, the two refs
  (\<open>socketRef\<close> as an index into the sockets constructed so far), and the pending
  \<open>setTimeout\<close> callbacks, each with its delay in milliseconds (all of them run the same
  reconnect callback).
\<close>

record Socket =
  sock_clientId :: string
  sock_url :: string
  sock_readyState :: ReadyState

record WebSocketHook =
  ws_isConnected :: bool
  ws_lastMessage :: "WebSocketMessage option"
  ws_socketRef :: "nat option"
  ws_clientIdRef :: "string option"
  ws_sockets :: "Socket list"
  ws_timers :: "nat list"

definition initialHook :: WebSocketHook where
  "initialHook =
     \<lparr> ws_isConnected = False, ws_lastMessage = None, ws_socketRef = None,
       ws_clientIdRef = None, ws_sockets = [], ws_timers = [] \<rparr>"

text \<open>
  The surroundings of the hook: the environment variable \<open>NEXT_PUBLIC_WS_URL\<close>, and which
  URLs the \<open>WebSocket\<close> constructor accepts (it throws on the others).
\<close>

record Env =
  env_NEXT_PUBLIC_WS_URL :: "string option"
  env_urlAccepted :: "string \<Rightarrow> bool"

definition WS_BASE_URL :: "Env \<Rightarrow> string" where
  "WS_BASE_URL env =
     (case env_NEXT_PUBLIC_WS_URL env of
        None \<Rightarrow> ''ws://localhost:8000''
      | Some u \<Rightarrow> if u = [] then ''ws://localhost:8000'' else u)"

text \<open>\<open>socket.close(...)\<close>: a socket that is connecting or open starts closing.\<close>

definition closeSocket :: "Socket \<Rightarrow> Socket" where
  "closeSocket sock =
     (if sock_readyState sock = CLOSING \<or> sock_readyState sock = CLOSED then sock
      else sock\<lparr>sock_readyState := CLOSING\<rparr>)"

definition connect :: "Env \<Rightarrow> string \<Rightarrow> WebSocketHook \<Rightarrow> WebSocketHook" where
  "connect env clientId h =
     (let h1 = (case ws_socketRef h of
                  None \<Rightarrow> h
                | Some i \<Rightarrow>
                    if i < length (ws_sockets h) \<and> sock_readyState (ws_sockets h ! i) = OPEN
                    then h\<lparr>ws_sockets := (ws_sockets h)[i := closeSocket (ws_sockets h ! i)]\<rparr>
                    else h);
          h2 = h1\<lparr>ws_clientIdRef := Some clientId\<rparr>;
          wsUrl = WS_BASE_URL env @ ''/ws/'' @ clientId
      in if env_urlAccepted env wsUrl
         then h2\<lparr> ws_sockets := ws_sockets h2 @
                      [\<lparr> sock_clientId = clientId, sock_url = wsUrl,
                         sock_readyState = CONNECTING \<rparr>],
                   ws_socketRef := Some (length (ws_sockets h2)) \<rparr>
         else h2\<lparr>ws_isConnected := False\<rparr>)"

definition disconnect :: "WebSocketHook \<Rightarrow> WebSocketHook" where
  "disconnect h =
     (case ws_socketRef h of
        None \<Rightarrow> h\<lparr>ws_isConnected := False\<rparr>
      | Some i \<Rightarrow>
          h\<lparr> ws_clientIdRef := None,
             ws_sockets := (if i < length (ws_sockets h)
                            then (ws_sockets h)[i := closeSocket (ws_sockets h ! i)]
                            else ws_sockets h),
             ws_socketRef := None,
             ws_isConnected := False \<rparr>)"

text \<open>
  The handlers \<open>connect\<close> installs on a socket. \<open>onmessage\<close> takes the result of
  \<open>JSON.parse(event.data)\<close> (\<open>None\<close> when it throws), the raw text and the clock; the
  message it builds from a text that does not parse has the four fields of
  \<open>WebSocketMessage\<close> and none of the extensions' (left empty here).
\<close>

definition onopen :: "WebSocketHook \<Rightarrow> WebSocketHook" where
  "onopen h = h\<lparr>ws_isConnected := True\<rparr>"

definition onmessage ::
  "string \<Rightarrow> WebSocketMessage option \<Rightarrow> string \<Rightarrow> string \<Rightarrow> WebSocketHook \<Rightarrow> WebSocketHook" where
  "onmessage clientId parsed raw now h =
     (case parsed of
        Some message \<Rightarrow> h\<lparr>ws_lastMessage := Some message\<rparr>
      | None \<Rightarrow>
          h\<lparr>ws_lastMessage := Some
              \<lparr> m_type = ''message'', m_client_id = clientId,
                m_data = \<lparr> d_metadata = None, d_current_step = None, d_message = Some raw \<rparr>,
                m_timestamp = now, m_step_id = [], m_step_status = [],
                m_progress_percentage = 0, m_approval_data = [],
                m_completion_data = \<lparr> cd_completed_at = None \<rparr> \<rparr>\<rparr>)"

text \<open>
  \<open>onclose\<close>: unless the close code is 1000 or \<open>clientIdRef.current\<close> is null or empty, a
  reconnect is scheduled 3000 ms later.
\<close>

definition clientIdRefSet :: "WebSocketHook \<Rightarrow> bool" where
  "clientIdRefSet h = (case ws_clientIdRef h of None \<Rightarrow> False | Some c \<Rightarrow> c \<noteq> [])"

definition onclose :: "nat \<Rightarrow> WebSocketHook \<Rightarrow> WebSocketHook" where
  "onclose code h =
     (let h1 = h\<lparr>ws_isConnected := False\<rparr>
      in if code \<noteq> 1000 \<and> clientIdRefSet h1
         then h1\<lparr>ws_timers := ws_timers h1 @ [3000]\<rparr>
         else h1)"

definition onerror :: "WebSocketHook \<Rightarrow> WebSocketHook" where
  "onerror h = h\<lparr>ws_isConnected := False\<rparr>"

text \<open>The callback given to \<open>setTimeout\<close>: reconnects if \<open>clientIdRef.current\<close> is still set.\<close>

definition reconnectCallback :: "Env \<Rightarrow> WebSocketHook \<Rightarrow> WebSocketHook" where
  "reconnectCallback env h =
     (case ws_clientIdRef h of
        None \<Rightarrow> h
      | Some c \<Rightarrow> if c \<noteq> [] then connect env c h else h)"

text \<open>
  What can happen to the hook: its owner calls \<open>connect\<close> or \<open>disconnect\<close> or unmounts
  (the cleanup calls \<open>disconnect\<close>), the browser raises an event on one of the sockets
  constructed (and moves its \<open>readyState\<close>), or a pending timer fires (and leaves the
  list). An event on a socket that was never constructed, or of a timer that is not
  pending, cannot happen and changes nothing.
\<close>

datatype HookEvent =
    Connect string
  | Disconnect
  | Unmount
  | SocketOpen nat
  | SocketMessage nat "WebSocketMessage option" string string
  | SocketClose nat nat
  | SocketError nat
  | TimerFired nat

definition setReadyState :: "nat \<Rightarrow> ReadyState \<Rightarrow> WebSocketHook \<Rightarrow> WebSocketHook" where
  "setReadyState i rs h =
     h\<lparr>ws_sockets := (ws_sockets h)[i := (ws_sockets h ! i)\<lparr>sock_readyState := rs\<rparr>]\<rparr>"

fun hookStep :: "Env \<Rightarrow> HookEvent \<Rightarrow> WebSocketHook \<Rightarrow> WebSocketHook" where
  "hookStep env (Connect clientId) h = connect env clientId h"
| "hookStep env Disconnect h = disconnect h"
| "hookStep env Unmount h = disconnect h"
| "hookStep env (SocketOpen i) h =
     (if i < length (ws_sockets h) then onopen (setReadyState i OPEN h) else h)"
| "hookStep env (SocketMessage i parsed raw now) h =
     (if i < length (ws_sockets h)
      then onmessage (sock_clientId (ws_sockets h ! i)) parsed raw now h else h)"
| "hookStep env (SocketClose i code) h =
     (if i < length (ws_sockets h) then onclose code (setReadyState i CLOSED h) else h)"
| "hookStep env (SocketError i) h =
     (if i < length (ws_sockets h) then onerror h else h)"
| "hookStep env (TimerFired k) h =
     (if k < length (ws_timers h)
      then reconnectCallback env
             (h\<lparr>ws_timers := take k (ws_timers h) @ drop (Suc k) (ws_timers h)\<rparr>)
      else h)"

fun hookRun :: "Env \<Rightarrow> HookEvent list \<Rightarrow> WebSocketHook \<Rightarrow> WebSocketHook" where
  "hookRun env [] h = h"
| "hookRun env (e # es) h = hookRun env es (hookStep env e h)"

definition isConnectEvent :: "HookEvent \<Rightarrow> bool" where
  "isConnectEvent e = (case e of Connect c \<Rightarrow> True | _ \<Rightarrow> False)"

definition isOwnerEvent :: "HookEvent \<Rightarrow> bool" where
  "isOwnerEvent e = (case e of Connect c \<Rightarrow> True | Disconnect \<Rightarrow> True | Unmount \<Rightarrow> True | _ \<Rightarrow> False)"

section \<open>The home page's handlers that call the engine or reset\<close>

text \<open>
  The requests the page sends to the engine through \<open>onboardingApi\<close>, in the order sent.
\<close>

datatype ApiRequest =
    ApiStart ClientInput
  | ApiStatus string
  | ApiApprove string string bool "string option"

record App =
  app_store :: OnboardingState
  app_ws :: WebSocketHook
  app_requests :: "ApiRequest list"

text \<open>
  \<open>handleApproval\<close>: nothing without a current client id; otherwise one \<open>approve\<close>
  request. \<open>failure\<close> is \<open>None\<close> when the request succeeds, and the text
  \<open>handleApiError(err)\<close> when it fails.
\<close>

definition handleApproval ::
  "string \<Rightarrow> bool \<Rightarrow> string option \<Rightarrow> string option \<Rightarrow> App \<Rightarrow> App" where
  "handleApproval stepId approved feedback failure app =
     (case currentClient (app_store app) of
        None \<Rightarrow> app
      | Some cc \<Rightarrow>
          if c_id cc = [] then app
          else
            (let app1 = app\<lparr>app_requests :=
                              app_requests app @ [ApiApprove (c_id cc) stepId approved feedback]\<rparr>
             in case failure of
                  None \<Rightarrow> app1
                | Some errorMessage \<Rightarrow>
                    app1\<lparr>app_store := setError (Some errorMessage) (app_store app1)\<rparr>))"

text \<open>\<open>handleReset\<close>: \<open>reset()\<close> of the store, then \<open>disconnect()\<close> of the hook.\<close>

definition handleReset :: "App \<Rightarrow> App" where
  "handleReset app =
     (let app1 = app\<lparr>app_store := reset (app_store app)\<rparr>
      in app1\<lparr>app_ws := disconnect (app_ws app1)\<rparr>)"

section \<open>Invariants of the WebSocket hook\<close>

text \<open>
  \<open>wsUrlRejected\<close>: \<open>clientIdRef\<close> is null, or the constructor throws on the URL of the
  client id it holds. Whenever the hook holds no socket it is in such a state
  (\<open>refsConsistent\<close>); after \<open>disconnect\<close> it holds no socket (\<open>dormant\<close>).
\<close>

definition wsUrlRejected :: "Env \<Rightarrow> WebSocketHook \<Rightarrow> bool" where
  "wsUrlRejected env h =
     (case ws_clientIdRef h of
        None \<Rightarrow> True
      | Some c \<Rightarrow> \<not> env_urlAccepted env (WS_BASE_URL env @ ''/ws/'' @ c))"

definition refsConsistent :: "Env \<Rightarrow> WebSocketHook \<Rightarrow> bool" where
  "refsConsistent env h = (ws_socketRef h \<noteq> None \<or> wsUrlRejected env h)"

definition dormant :: "Env \<Rightarrow> WebSocketHook \<Rightarrow> bool" where
  "dormant env h = (ws_socketRef h = None \<and> wsUrlRejected env h)"

section \<open>Concrete values\<close>

text \<open>
  An intake, the client made from it, a progress of two steps, a store observing that
  client, messages, an e-mail check, the surroundings of the hook and states of the hook.
\<close>

definition exampleInput :: ClientInput where
  "exampleInput =
     \<lparr> c_name = ''Ada Lovelace'', c_email = ''ada@example.com'', c_company = None,
       c_phone = None, c_project_type = WEB_DEVELOPMENT,
       c_project_scope = ''A marketing site'', c_budget_range = None, c_timeline = None,
       c_additional_notes = None \<rparr>"

definition exampleClient :: Client where
  "exampleClient =
     \<lparr> c_name = ''Ada Lovelace'', c_email = ''ada@example.com'', c_company = None,
       c_phone = None, c_project_type = WEB_DEVELOPMENT,
       c_project_scope = ''A marketing site'', c_budget_range = None, c_timeline = None,
       c_additional_notes = None, c_id = ''c1'', c_status = IN_PROGRESS,
       c_created_at = ''t0'', c_updated_at = ''t0'', c_drive_folder_id = None,
       c_contract_doc_id = None, c_slack_channel_id = None, c_github_repo_url = None,
       c_notion_board_id = None, c_stripe_customer_id = None, c_invoice_id = None \<rparr>"

definition exampleStep :: "string \<Rightarrow> string \<Rightarrow> OnboardingStep" where
  "exampleStep stepId status =
     \<lparr> s_id = stepId, s_name = stepId, s_description = [], s_status = status,
       s_started_at = None, s_completed_at = None, s_error_message = None,
       s_metadata = None \<rparr>"

definition exampleProgress :: OnboardingProgress where
  "exampleProgress =
     \<lparr> p_client_id = ''c1'',
       p_steps = [exampleStep ''create_folder'' ''completed'',
                  exampleStep ''human_approval'' ''in_progress''],
       p_current_step = 1, p_overall_status = IN_PROGRESS, p_started_at = Some ''t0'',
       p_completed_at = None, p_progress_percentage = 50 \<rparr>"

definition exampleState :: OnboardingState where
  "exampleState =
     \<lparr> currentClient = Some exampleClient, currentProgress = Some exampleProgress,
       isOnboardingActive = True, currentView = orchestration, showOnboardingModal = False,
       isLoading = False, error = None, isConnected = False, clients = [exampleClient] \<rparr>"

definition exampleMessage :: "string \<Rightarrow> string \<Rightarrow> string \<Rightarrow> real \<Rightarrow> WebSocketMessage" where
  "exampleMessage type stepId status pct =
     \<lparr> m_type = type, m_client_id = ''c1'',
       m_data = \<lparr> d_metadata = None, d_current_step = None, d_message = None \<rparr>,
       m_timestamp = ''t1'', m_step_id = stepId, m_step_status = status,
       m_progress_percentage = pct, m_approval_data = [],
       m_completion_data = \<lparr> cd_completed_at = Some ''t9'' \<rparr> \<rparr>"

definition containsAt :: "string \<Rightarrow> bool" where
  "containsAt s = (CHR ''@'' \<in> set s)"

definition exampleEnv :: Env where
  "exampleEnv = \<lparr> env_NEXT_PUBLIC_WS_URL = None, env_urlAccepted = (\<lambda>u. True) \<rparr>"

definition exampleSocket :: "ReadyState \<Rightarrow> Socket" where
  "exampleSocket rs =
     \<lparr> sock_clientId = ''c1'', sock_url = ''ws://localhost:8000/ws/c1'', sock_readyState = rs \<rparr>"

definition exampleHook :: "bool \<Rightarrow> nat option \<Rightarrow> string option \<Rightarrow> Socket list \<Rightarrow> nat list \<Rightarrow> WebSocketHook" where
  "exampleHook conn sref cref socks timers =
     \<lparr> ws_isConnected = conn, ws_lastMessage = None, ws_socketRef = sref,
       ws_clientIdRef = cref, ws_sockets = socks, ws_timers = timers \<rparr>"

section \<open>The store: addClient, updateClient, reset\<close>

lemma findIndex_ge_m1: "findIndex P xs \<ge> - 1"
  by (induction xs) (auto simp: Let_def)

lemma findIndex_nonneg_iff: "findIndex P xs \<ge> 0 \<longleftrightarrow> (\<exists>x\<in>set xs. P x)"
  by (induction xs) (auto simp: Let_def)

lemma findIndex_found:
  "findIndex P xs \<ge> 0 \<Longrightarrow>
     nat (findIndex P xs) < length xs \<and> P (xs ! nat (findIndex P xs)) \<and>
     (\<forall>j < nat (findIndex P xs). \<not> P (xs ! j))"
proof (induction xs)
  case Nil
  then show ?case by simp
next
  case (Cons x xs)
  show ?case
  proof (cases "P x")
    case True
    then show ?thesis by simp
  next
    case False
    with Cons.prems have nn: "findIndex P xs \<ge> 0"
      by (simp add: Let_def split: if_splits)
    with False have eq: "findIndex P (x # xs) = findIndex P xs + 1"
      by (simp add: Let_def)
    from Cons.IH [OF nn] have ih: "nat (findIndex P xs) < length xs"
      "P (xs ! nat (findIndex P xs))" "\<forall>j < nat (findIndex P xs). \<not> P (xs ! j)"
      by simp_all
    have n: "nat (findIndex P xs + 1) = Suc (nat (findIndex P xs))"
      using nn by simp
    show ?thesis
      unfolding eq n using ih False by (auto simp: nth_Cons split: nat.splits)
  qed
qed

text \<open>
  C9. On a list of clients with pairwise distinct ids, \<open>addClient\<close> keeps the ids
  distinct. If a client with the same id is in the list, it is replaced where it stands:
  the list keeps its length and the order of its ids. Otherwise the new client is put
  in front of the list.
\<close>

theorem addClient_distinct_ids:
  assumes "distinct (map c_id (clients st))"
  shows "distinct (map c_id (clients (addClient client st))) \<and>
    ((\<exists>c\<in>set (clients st). c_id c = c_id client) \<longrightarrow>
       length (clients (addClient client st)) = length (clients st) \<and>
       map c_id (clients (addClient client st)) = map c_id (clients st) \<and>
       (\<exists>i < length (clients st). c_id (clients st ! i) = c_id client \<and>
          clients (addClient client st) = (clients st)[i := client])) \<and>
    ((\<forall>c\<in>set (clients st). c_id c \<noteq> c_id client) \<longrightarrow>
       clients (addClient client st) = client # clients st)"
proof (cases "findIndex (\<lambda>c. c_id c = c_id client) (clients st) \<ge> 0")
  case True
  define i where "i = nat (findIndex (\<lambda>c. c_id c = c_id client) (clients st))"
  from findIndex_found [OF True] have i: "i < length (clients st)" "c_id (clients st ! i) = c_id client"
    by (simp_all add: i_def)
  have ex: "\<exists>c\<in>set (clients st). c_id c = c_id client"
    using True by (simp add: findIndex_nonneg_iff)
  have upd: "clients (addClient client st) = (clients st)[i := client]"
    using True by (simp add: addClient_def Let_def i_def)
  have ids: "map c_id ((clients st)[i := client]) = map c_id (clients st)"
    using i by (simp add: map_update list_update_same_conv)
  show ?thesis
    using assms i ex upd ids by auto
next
  case False
  then have none: "\<forall>c\<in>set (clients st). c_id c \<noteq> c_id client"
    using findIndex_nonneg_iff [of "\<lambda>c. c_id c = c_id client" "clients st"] by auto
  have upd: "clients (addClient client st) = client # clients st"
    using False by (simp add: addClient_def Let_def)
  show ?thesis
    using assms none upd by auto
qed

theorem addClient_distinct_ids_witness:
  "distinct (map c_id (clients exampleState)) \<and>
   clients (addClient (exampleClient\<lparr>c_status := COMPLETED\<rparr>) exampleState) =
     [exampleClient\<lparr>c_status := COMPLETED\<rparr>] \<and>
   clients (addClient (exampleClient\<lparr>c_id := ''c2''\<rparr>) exampleState) =
     [exampleClient\<lparr>c_id := ''c2''\<rparr>, exampleClient]"
proof -
  have d: "distinct (map c_id (clients exampleState))"
    by (simp add: exampleState_def)
  have cl: "clients exampleState = [exampleClient]"
    by (simp add: exampleState_def)
  from addClient_distinct_ids [OF d, of "exampleClient\<lparr>c_status := COMPLETED\<rparr>"]
  have a: "clients (addClient (exampleClient\<lparr>c_status := COMPLETED\<rparr>) exampleState) =
     [exampleClient\<lparr>c_status := COMPLETED\<rparr>]"
    by (auto simp: cl)
  from addClient_distinct_ids [OF d, of "exampleClient\<lparr>c_id := ''c2''\<rparr>"]
  have b: "clients (addClient (exampleClient\<lparr>c_id := ''c2''\<rparr>) exampleState) =
     [exampleClient\<lparr>c_id := ''c2''\<rparr>, exampleClient]"
    by (simp add: cl exampleClient_def)
  from d a b show ?thesis by simp
qed

lemma mergeClient_noUpdates: "mergeClient client noUpdates = client"
  by (simp add: mergeClient_def noUpdates_def spread_def)

lemma updateClient_noUpdates: "updateClient clientId noUpdates st = st"
proof -
  have "map (\<lambda>client. if c_id client = clientId then mergeClient client noUpdates else client)
          (clients st) = clients st"
    by (rule map_idI) (simp add: mergeClient_noUpdates)
  then show ?thesis
    by (simp add: updateClient_def Let_def mergeClient_noUpdates split: option.splits)
qed

text \<open>
  C10. \<open>updateClient clientId updates\<close> merges \<open>updates\<close> into exactly the clients of
  the list whose id is \<open>clientId\<close> and leaves every other client of the list as it was;
  \<open>currentClient\<close> gets the same merge if and only if its id is \<open>clientId\<close>; no other
  field of the store changes. Merging no property changes nothing at all.
\<close>

theorem updateClient_frame:
  "length (clients (updateClient clientId updates st)) = length (clients st) \<and>
   (\<forall>i < length (clients st).
      clients (updateClient clientId updates st) ! i =
        (if c_id (clients st ! i) = clientId then mergeClient (clients st ! i) updates
         else clients st ! i)) \<and>
   currentClient (updateClient clientId updates st) =
     (case currentClient st of
        None \<Rightarrow> None
      | Some cc \<Rightarrow> if c_id cc = clientId then Some (mergeClient cc updates) else Some cc) \<and>
   currentProgress (updateClient clientId updates st) = currentProgress st \<and>
   isOnboardingActive (updateClient clientId updates st) = isOnboardingActive st \<and>
   currentView (updateClient clientId updates st) = currentView st \<and>
   showOnboardingModal (updateClient clientId updates st) = showOnboardingModal st \<and>
   isLoading (updateClient clientId updates st) = isLoading st \<and>
   error (updateClient clientId updates st) = error st \<and>
   isConnected (updateClient clientId updates st) = isConnected st \<and>
   updateClient clientId noUpdates st = st"
proof -
  have frame: "length (clients (updateClient clientId updates st)) = length (clients st) \<and>
   (\<forall>i < length (clients st).
      clients (updateClient clientId updates st) ! i =
        (if c_id (clients st ! i) = clientId then mergeClient (clients st ! i) updates
         else clients st ! i)) \<and>
   currentClient (updateClient clientId updates st) =
     (case currentClient st of
        None \<Rightarrow> None
      | Some cc \<Rightarrow> if c_id cc = clientId then Some (mergeClient cc updates) else Some cc) \<and>
   currentProgress (updateClient clientId updates st) = currentProgress st \<and>
   isOnboardingActive (updateClient clientId updates st) = isOnboardingActive st \<and>
   currentView (updateClient clientId updates st) = currentView st \<and>
   showOnboardingModal (updateClient clientId updates st) = showOnboardingModal st \<and>
   isLoading (updateClient clientId updates st) = isLoading st \<and>
   error (updateClient clientId updates st) = error st \<and>
   isConnected (updateClient clientId updates st) = isConnected st"
    by (simp add: updateClient_def Let_def split: option.splits)
  with updateClient_noUpdates [of clientId st] show ?thesis by simp
qed

theorem updateClient_frame_witness:
  "map c_status (clients (updateClient ''c1'' (noUpdates\<lparr>u_status := Some FAILED\<rparr>)
      (exampleState\<lparr>clients := [exampleClient, exampleClient\<lparr>c_id := ''c2''\<rparr>]\<rparr>))) =
     [FAILED, IN_PROGRESS] \<and>
   map_option c_status (currentClient (updateClient ''c1'' (noUpdates\<lparr>u_status := Some FAILED\<rparr>)
      (exampleState\<lparr>clients := [exampleClient, exampleClient\<lparr>c_id := ''c2''\<rparr>]\<rparr>))) = Some FAILED"
proof -
  let ?st = "exampleState\<lparr>clients := [exampleClient, exampleClient\<lparr>c_id := ''c2''\<rparr>]\<rparr>"
  let ?u = "noUpdates\<lparr>u_status := Some FAILED\<rparr>"
  have cl: "clients ?st = [exampleClient, exampleClient\<lparr>c_id := ''c2''\<rparr>]"
    by simp
  have cc: "currentClient ?st = Some exampleClient"
    by (simp add: exampleState_def)
  have m: "c_status (mergeClient exampleClient ?u) = FAILED"
    by (simp add: mergeClient_def spread_def noUpdates_def)
  have ids: "c_id exampleClient = ''c1''" "c_status exampleClient = IN_PROGRESS"
    by (simp_all add: exampleClient_def)
  note inst = updateClient_frame [of "''c1''" ?u ?st]
  from inst have len: "length (clients (updateClient ''c1'' ?u ?st)) = 2"
    by (simp only: cl) simp
  then obtain a b where ab: "clients (updateClient ''c1'' ?u ?st) = [a, b]"
    by (auto simp: length_Suc_conv numeral_2_eq_2)
  from inst have "\<forall>i<length (clients ?st). clients (updateClient ''c1'' ?u ?st) ! i =
        (if c_id (clients ?st ! i) = ''c1'' then mergeClient (clients ?st ! i) ?u
         else clients ?st ! i)"
    by blast
  then have n: "clients (updateClient ''c1'' ?u ?st) ! 0 = mergeClient exampleClient ?u"
     "clients (updateClient ''c1'' ?u ?st) ! 1 = exampleClient\<lparr>c_id := ''c2''\<rparr>"
    by (simp_all add: cl ids)
  from inst have c: "currentClient (updateClient ''c1'' ?u ?st) = Some (mergeClient exampleClient ?u)"
    by (simp add: cc ids)
  from n ab m c ids show ?thesis by simp
qed

text \<open>
  C7. \<open>reset\<close> clears the current client, the current progress, the active flag, the
  view (back to \<open>landing\<close>), the modal flag, the loading flag and the error, and leaves
  the list of clients (and the connection flag) as they were. \<open>handleReset\<close> does this
  and disconnects the hook; it sends no request to the engine, so nothing stops the
  workflow.
\<close>

theorem reset_frame:
  "currentClient (reset st) = None \<and>
   currentProgress (reset st) = None \<and>
   \<not> isOnboardingActive (reset st) \<and>
   currentView (reset st) = landing \<and>
   \<not> showOnboardingModal (reset st) \<and>
   \<not> isLoading (reset st) \<and>
   error (reset st) = None \<and>
   clients (reset st) = clients st \<and>
   isConnected (reset st) = isConnected st \<and>
   app_store (handleReset app) = reset (app_store app) \<and>
   app_ws (handleReset app) = disconnect (app_ws app) \<and>
   app_requests (handleReset app) = app_requests app"
  by (simp add: reset_def handleReset_def Let_def)

theorem reset_frame_witness:
  "reset exampleState = initialState\<lparr>clients := [exampleClient]\<rparr> \<and>
   app_requests (handleReset
      \<lparr> app_store = exampleState, app_ws = initialHook,
        app_requests = [ApiStart exampleInput] \<rparr>) = [ApiStart exampleInput] \<and>
   app_requests (handleApproval ''human_approval'' True None None
      \<lparr> app_store = exampleState, app_ws = initialHook,
        app_requests = [ApiStart exampleInput] \<rparr>) =
     [ApiStart exampleInput, ApiApprove ''c1'' ''human_approval'' True None]"
  using reset_frame [of exampleState
      "\<lparr> app_store = exampleState, app_ws = initialHook, app_requests = [ApiStart exampleInput] \<rparr>"]
  by (simp add: reset_def exampleState_def initialState_def handleApproval_def exampleClient_def)

section \<open>The intake form\<close>

lemma clientFormSchema_empty_iff:
  "clientFormSchema isEmail d = [] \<longleftrightarrow>
     (2 \<le> length (c_name d) \<and> length (c_name d) \<le> 100 \<and> isEmail (c_email d) \<and>
      10 \<le> length (c_project_scope d) \<and> length (c_project_scope d) \<le> 1000 \<and>
      (case c_additional_notes d of None \<Rightarrow> True | Some notes \<Rightarrow> length notes \<le> 500))"
  by (auto simp: clientFormSchema_def split: option.splits)

text \<open>
  C1. The schema raises no issue on an intake if and only if the name has 2 to 100
  characters, the e-mail passes the e-mail check, the project scope has 10 to 1000
  characters and the additional notes, when present, have at most 500. An intake that
  passes is handed to \<open>onSubmit\<close> once; for an intake with an issue \<open>onSubmit\<close> is never
  called, and the issues become the errors of the form.
\<close>

theorem intake_validation:
  "(clientFormSchema isEmail d = [] \<longleftrightarrow>
     (2 \<le> length (c_name d) \<and> length (c_name d) \<le> 100 \<and> isEmail (c_email d) \<and>
      10 \<le> length (c_project_scope d) \<and> length (c_project_scope d) \<le> 1000 \<and>
      (case c_additional_notes d of None \<Rightarrow> True | Some notes \<Rightarrow> length notes \<le> 500))) \<and>
   (clientFormSchema isEmail d = [] \<longrightarrow>
      onSubmitCalls (handleSubmit isEmail loading d) = [d] \<and>
      formErrors (handleSubmit isEmail loading d) = []) \<and>
   (clientFormSchema isEmail d \<noteq> [] \<longrightarrow>
      onSubmitCalls (handleSubmit isEmail loading d) = [] \<and>
      formErrors (handleSubmit isEmail loading d) = clientFormSchema isEmail d)"
  using clientFormSchema_empty_iff [of isEmail d]
  by (simp add: handleSubmit_def Let_def)

theorem intake_validation_witness:
  "clientFormSchema containsAt exampleInput = [] \<and>
   onSubmitCalls (handleSubmit containsAt False exampleInput) = [exampleInput] \<and>
   clientFormSchema containsAt (exampleInput\<lparr>c_name := ''A''\<rparr>) =
     [(''name'', ''Name must be at least 2 characters'')] \<and>
   onSubmitCalls (handleSubmit containsAt False (exampleInput\<lparr>c_name := ''A''\<rparr>)) = []"
proof -
  have ok: "clientFormSchema containsAt exampleInput = []"
    using intake_validation [of containsAt exampleInput False]
    by (simp add: exampleInput_def containsAt_def)
  have bad: "clientFormSchema containsAt (exampleInput\<lparr>c_name := ''A''\<rparr>) =
     [(''name'', ''Name must be at least 2 characters'')]"
    by (simp add: clientFormSchema_def exampleInput_def containsAt_def)
  from ok bad show ?thesis
    using intake_validation [of containsAt exampleInput False]
      intake_validation [of containsAt "exampleInput\<lparr>c_name := ''A''\<rparr>" False]
    by simp
qed

section \<open>The message handler\<close>

lemma handleMessage_client:
  assumes "currentClient st = Some cc" and "c_id cc \<noteq> []"
  shows "\<exists>cc'. currentClient (handleMessage now1 now2 (Some msg) st) = Some cc' \<and>
               c_id cc' = c_id cc"
  using assms
  by (auto simp: handleMessage_def Let_def setCurrentProgress_def setCurrentClient_def
        setCurrentView_def setError_def updateClient_def mergeClient_def spread_def noUpdates_def
      split: option.splits)

lemma handleMessage_progress:
  assumes "currentClient st = Some cc" and "c_id cc \<noteq> []" and "currentProgress st = Some cp"
  shows "\<exists>cp'. currentProgress (handleMessage now1 now2 (Some msg) st) = Some cp' \<and>
     p_steps cp' =
       (if m_type msg = ''step_update'' then map (stepUpdateStep msg) (p_steps cp)
        else if m_type msg = ''approval_request'' then map (approvalRequestStep msg) (p_steps cp)
        else p_steps cp) \<and>
     p_progress_percentage cp' =
       (if m_type msg = ''step_update'' then m_progress_percentage msg
        else if m_type msg = ''onboarding_complete'' then 100
        else p_progress_percentage cp)"
  using assms
  by (auto simp: handleMessage_def Let_def setCurrentProgress_def setCurrentClient_def
        setCurrentView_def setError_def updateClient_def
      split: option.splits)

lemma stepUpdateStep_id: "s_id (stepUpdateStep msg step) = s_id step"
  by (simp add: stepUpdateStep_def)

lemma approvalRequestStep_id: "s_id (approvalRequestStep msg step) = s_id step"
  by (simp add: approvalRequestStep_def)

lemma stepUpdateStep_status:
  "s_status (stepUpdateStep msg step) =
     (if s_id step = m_step_id msg then m_step_status msg else s_status step)"
  by (simp add: stepUpdateStep_def)

lemma approvalRequestStep_status:
  "s_status (approvalRequestStep msg step) =
     (if s_id step = m_step_id msg then in_progress else s_status step)"
  by (simp add: approvalRequestStep_def)

lemma handleMessage_unguarded:
  "currentClient st = None \<or> (\<exists>cc. currentClient st = Some cc \<and> c_id cc = []) \<Longrightarrow>
   handleMessage now1 now2 lastMessage st = st"
  by (auto simp: handleMessage_def split: option.splits)

text \<open>
  C6. A message whose type is none of \<open>step_update\<close>, \<open>approval_request\<close>,
  \<open>onboarding_complete\<close> and \<open>error\<close> leaves the whole store as it was (progress, client,
  error and every other field), and \<open>useWebSocketHandlers\<close> calls no callback for it and
  logs its type. The handler has no failing branch.
\<close>

theorem unknown_event_ignored:
  assumes "m_type msg \<notin> {''step_update'', ''approval_request'', ''onboarding_complete'', ''error''}"
  shows "handleMessage now1 now2 (Some msg) st = st \<and>
         useWebSocketHandlers onStepUpdate onApprovalRequest onOnboardingComplete onError (Some msg) =
           [LogUnhandled (m_type msg)]"
  using assms
  by (simp add: handleMessage_def useWebSocketHandlers_def split: option.splits)

theorem unknown_event_ignored_witness:
  "ws_lastMessage (onmessage ''c1'' None ''ping'' ''t5'' initialHook) \<noteq> None \<and>
   handleMessage ''t6'' ''t7'' (ws_lastMessage (onmessage ''c1'' None ''ping'' ''t5'' initialHook))
     exampleState = exampleState \<and>
   useWebSocketHandlers True True True True
     (ws_lastMessage (onmessage ''c1'' None ''ping'' ''t5'' initialHook)) = [LogUnhandled ''message'']"
proof -
  obtain msg where msg: "ws_lastMessage (onmessage ''c1'' None ''ping'' ''t5'' initialHook) = Some msg"
    and ty: "m_type msg = ''message''"
    by (simp add: onmessage_def)
  have "m_type msg \<notin> {''step_update'', ''approval_request'', ''onboarding_complete'', ''error''}"
    by (simp add: ty)
  from unknown_event_ignored [OF this, of "''t6''" "''t7''" exampleState True True True True]
  show ?thesis by (simp add: msg ty)
qed

text \<open>
  C4. An observer with a current client (of non-empty id) and a progress receives
  \<open>onboarding_complete\<close>: afterwards its progress has \<open>overall_status\<close> \<open>COMPLETED\<close>,
  \<open>progress_percentage\<close> 100 and the \<open>completed_at\<close> of the message's
  \<open>completion_data\<close>; the current client keeps its id and has status \<open>COMPLETED\<close>, and
  so has every client of the list with that id; the view is \<open>complete\<close>.
\<close>

theorem onboarding_complete_applied:
  assumes "m_type msg = ''onboarding_complete''"
    and "currentClient st = Some cc" and "c_id cc \<noteq> []" and "currentProgress st = Some cp"
  shows "\<exists>cp' cc'.
     currentProgress (handleMessage now1 now2 (Some msg) st) = Some cp' \<and>
     p_overall_status cp' = COMPLETED \<and>
     p_progress_percentage cp' = 100 \<and>
     p_completed_at cp' = cd_completed_at (m_completion_data msg) \<and>
     currentClient (handleMessage now1 now2 (Some msg) st) = Some cc' \<and>
     c_id cc' = c_id cc \<and> c_status cc' = COMPLETED \<and>
     length (clients (handleMessage now1 now2 (Some msg) st)) = length (clients st) \<and>
     (\<forall>i < length (clients st).
        c_id (clients st ! i) = c_id cc \<longrightarrow>
        c_status (clients (handleMessage now1 now2 (Some msg) st) ! i) = COMPLETED) \<and>
     currentView (handleMessage now1 now2 (Some msg) st) = complete"
  using assms
  by (simp add: handleMessage_def Let_def setCurrentProgress_def setCurrentClient_def
        setCurrentView_def updateClient_def mergeClient_def spread_def noUpdates_def)

theorem onboarding_complete_applied_witness:
  "map_option (\<lambda>p. (p_overall_status p, p_progress_percentage p, p_completed_at p))
     (currentProgress (handleMessage ''t2'' ''t3''
        (Some (exampleMessage ''onboarding_complete'' [] [] 0)) exampleState)) =
     Some (COMPLETED, 100, Some ''t9'') \<and>
   map_option c_status
     (currentClient (handleMessage ''t2'' ''t3''
        (Some (exampleMessage ''onboarding_complete'' [] [] 0)) exampleState)) = Some COMPLETED \<and>
   map c_status
     (clients (handleMessage ''t2'' ''t3''
        (Some (exampleMessage ''onboarding_complete'' [] [] 0)) exampleState)) = [COMPLETED]"
proof -
  let ?msg = "exampleMessage ''onboarding_complete'' [] [] 0"
  have h1: "m_type ?msg = ''onboarding_complete''"
    by (simp add: exampleMessage_def)
  have h2: "currentClient exampleState = Some exampleClient"
    by (simp add: exampleState_def)
  have h3: "c_id exampleClient \<noteq> []"
    by (simp add: exampleClient_def)
  have h4: "currentProgress exampleState = Some exampleProgress"
    by (simp add: exampleState_def)
  have cl: "clients exampleState = [exampleClient]"
    by (simp add: exampleState_def)
  have cd: "cd_completed_at (m_completion_data ?msg) = Some ''t9''"
    by (simp add: exampleMessage_def)
  from onboarding_complete_applied [OF h1 h2 h3 h4, of "''t2''" "''t3''"]
  obtain cp' cc' where
    "currentProgress (handleMessage ''t2'' ''t3'' (Some ?msg) exampleState) = Some cp'"
    "p_overall_status cp' = COMPLETED" "p_progress_percentage cp' = 100"
    "p_completed_at cp' = cd_completed_at (m_completion_data ?msg)"
    "currentClient (handleMessage ''t2'' ''t3'' (Some ?msg) exampleState) = Some cc'"
    "c_status cc' = COMPLETED"
    "length (clients (handleMessage ''t2'' ''t3'' (Some ?msg) exampleState)) = length (clients exampleState)"
    "\<forall>i < length (clients exampleState).
        c_id (clients exampleState ! i) = c_id exampleClient \<longrightarrow>
        c_status (clients (handleMessage ''t2'' ''t3'' (Some ?msg) exampleState) ! i) = COMPLETED"
    by blast
  then show ?thesis
    using cl cd by (auto simp: length_Suc_conv)
qed

text \<open>
  C2, as the claim states it, fails: the handler writes the status a message carries,
  whatever the step's status was. Here a completed step goes back to \<open>in_progress\<close> on an
  \<open>approval_request\<close>, and a step in progress goes back to \<open>pending\<close> on a
  \<open>step_update\<close>.
\<close>

theorem step_status_monotone_counterexample:
  "map s_status (p_steps exampleProgress) = [completed, in_progress] \<and>
   map_option (\<lambda>p. map s_status (p_steps p))
     (currentProgress (handleMessage ''t1'' ''t1''
        (Some (exampleMessage ''approval_request'' ''create_folder'' [] 0))
        exampleState)) = Some [in_progress, in_progress] \<and>
   map_option (\<lambda>p. map s_status (p_steps p))
     (currentProgress (handleMessage ''t1'' ''t1''
        (Some (exampleMessage ''step_update'' ''human_approval'' ''pending'' 50))
        exampleState)) = Some [completed, pending]"
  by (simp add: handleMessage_def exampleState_def exampleClient_def exampleProgress_def
        exampleStep_def exampleMessage_def setCurrentProgress_def approvalRequestStep_def
        stepUpdateStep_def in_progress_def completed_def pending_def)

text \<open>
  C2, amended. At each run of the handler on a message, in a store with a current client
  of non-empty id and a progress, the progress keeps its steps, by position and id, and
  the status of a step afterwards is the \<open>step_status\<close> of the message if it is a
  \<open>step_update\<close> naming the step's id, \<open>in_progress\<close> if it is an \<open>approval_request\<close>
  naming it, and the step's status before otherwise, whatever that status was. Without
  a current client, with a client of empty id, or without a message, the handler leaves
  the store as it is.
\<close>

theorem step_status_after_message:
  "(currentClient st = Some cc \<and> c_id cc \<noteq> [] \<and> currentProgress st = Some cp \<longrightarrow>
      (\<exists>cp'. currentProgress (handleMessage now1 now2 (Some msg) st) = Some cp' \<and>
         length (p_steps cp') = length (p_steps cp) \<and>
         (\<forall>i < length (p_steps cp).
            s_id (p_steps cp' ! i) = s_id (p_steps cp ! i) \<and>
            s_status (p_steps cp' ! i) =
              (if m_type msg = ''step_update'' \<and> s_id (p_steps cp ! i) = m_step_id msg
               then m_step_status msg
               else if m_type msg = ''approval_request'' \<and> s_id (p_steps cp ! i) = m_step_id msg
               then in_progress
               else s_status (p_steps cp ! i))))) \<and>
   (currentClient st = None \<or> (\<exists>cc. currentClient st = Some cc \<and> c_id cc = []) \<longrightarrow>
      handleMessage now1 now2 lastMessage st = st) \<and>
   handleMessage now1 now2 None st = st"
proof (intro conjI impI)
  assume a: "currentClient st = Some cc \<and> c_id cc \<noteq> [] \<and> currentProgress st = Some cp"
  then have cc: "currentClient st = Some cc" and id: "c_id cc \<noteq> []"
    and cp: "currentProgress st = Some cp"
    by simp_all
  from handleMessage_progress [OF cc id cp, of now1 now2 msg]
  obtain cp' where cp': "currentProgress (handleMessage now1 now2 (Some msg) st) = Some cp'"
    and steps: "p_steps cp' =
       (if m_type msg = ''step_update'' then map (stepUpdateStep msg) (p_steps cp)
        else if m_type msg = ''approval_request'' then map (approvalRequestStep msg) (p_steps cp)
        else p_steps cp)"
    by blast
  have len: "length (p_steps cp') = length (p_steps cp)"
    by (simp add: steps)
  have each: "\<forall>i < length (p_steps cp).
            s_id (p_steps cp' ! i) = s_id (p_steps cp ! i) \<and>
            s_status (p_steps cp' ! i) =
              (if m_type msg = ''step_update'' \<and> s_id (p_steps cp ! i) = m_step_id msg
               then m_step_status msg
               else if m_type msg = ''approval_request'' \<and> s_id (p_steps cp ! i) = m_step_id msg
               then in_progress
               else s_status (p_steps cp ! i))"
    by (simp add: steps stepUpdateStep_id approvalRequestStep_id stepUpdateStep_status
          approvalRequestStep_status)
  from cp' len each
  show "\<exists>cp'. currentProgress (handleMessage now1 now2 (Some msg) st) = Some cp' \<and>
         length (p_steps cp') = length (p_steps cp) \<and>
         (\<forall>i < length (p_steps cp).
            s_id (p_steps cp' ! i) = s_id (p_steps cp ! i) \<and>
            s_status (p_steps cp' ! i) =
              (if m_type msg = ''step_update'' \<and> s_id (p_steps cp ! i) = m_step_id msg
               then m_step_status msg
               else if m_type msg = ''approval_request'' \<and> s_id (p_steps cp ! i) = m_step_id msg
               then in_progress
               else s_status (p_steps cp ! i)))"
    by blast
next
  assume "currentClient st = None \<or> (\<exists>cc. currentClient st = Some cc \<and> c_id cc = [])"
  then show "handleMessage now1 now2 lastMessage st = st"
    by (rule handleMessage_unguarded)
next
  show "handleMessage now1 now2 None st = st"
    by (simp add: handleMessage_def)
qed

theorem step_status_after_message_witness:
  "map_option (\<lambda>p. map s_status (p_steps p))
     (currentProgress (handleMessage ''t1'' ''t2''
        (Some (exampleMessage ''step_update'' ''human_approval'' ''failed'' 50))
        exampleState)) = Some [''completed'', ''failed''] \<and>
   handleMessage ''t1'' ''t2''
     (Some (exampleMessage ''step_update'' ''human_approval'' ''failed'' 50))
     (exampleState\<lparr>currentClient := None\<rparr>) = exampleState\<lparr>currentClient := None\<rparr>"
proof -
  let ?msg = "exampleMessage ''step_update'' ''human_approval'' ''failed'' 50"
  let ?idle = "exampleState\<lparr>currentClient := None\<rparr>"
  have hyp: "currentClient exampleState = Some exampleClient \<and> c_id exampleClient \<noteq> [] \<and>
      currentProgress exampleState = Some exampleProgress"
    by (simp add: exampleState_def exampleClient_def)
  have steps: "p_steps exampleProgress =
      [exampleStep ''create_folder'' ''completed'', exampleStep ''human_approval'' ''in_progress'']"
    by (simp add: exampleProgress_def)
  have msg: "m_type ?msg = ''step_update''" "m_step_id ?msg = ''human_approval''"
    "m_step_status ?msg = ''failed''"
    by (simp_all add: exampleMessage_def)
  note inst = step_status_after_message
      [of exampleState exampleClient exampleProgress "''t1''" "''t2''" ?msg "Some ?msg"]
  from mp [OF inst [THEN conjunct1] hyp]
  obtain cp' where cp': "currentProgress (handleMessage ''t1'' ''t2'' (Some ?msg) exampleState) = Some cp'"
    and len: "length (p_steps cp') = length (p_steps exampleProgress)"
    and all: "\<forall>i < length (p_steps exampleProgress).
        s_status (p_steps cp' ! i) =
          (if m_type ?msg = ''step_update'' \<and> s_id (p_steps exampleProgress ! i) = m_step_id ?msg
           then m_step_status ?msg
           else if m_type ?msg = ''approval_request'' \<and>
                   s_id (p_steps exampleProgress ! i) = m_step_id ?msg
           then in_progress
           else s_status (p_steps exampleProgress ! i))"
    by blast
  from len obtain a b where ab: "p_steps cp' = [a, b]"
    by (auto simp: steps length_Suc_conv)
  from all have s0: "s_status (p_steps cp' ! 0) = ''completed''"
    by (simp add: steps msg exampleStep_def)
  from all have s1: "s_status (p_steps cp' ! 1) = ''failed''"
    by (simp add: steps msg exampleStep_def)
  have first: "map_option (\<lambda>p. map s_status (p_steps p))
     (currentProgress (handleMessage ''t1'' ''t2'' (Some ?msg) exampleState)) =
     Some [''completed'', ''failed'']"
    using s0 s1 by (simp add: cp' ab)
  note inst2 = step_status_after_message
      [of ?idle exampleClient exampleProgress "''t1''" "''t2''" ?msg "Some ?msg"]
  have "currentClient ?idle = None \<or> (\<exists>cc. currentClient ?idle = Some cc \<and> c_id cc = [])"
    by simp
  from mp [OF inst2 [THEN conjunct2, THEN conjunct1] this]
  have second: "handleMessage ''t1'' ''t2'' (Some ?msg) ?idle = ?idle" .
  from first second show ?thesis by (intro conjI)
qed

text \<open>
  C3, as the claim states it, fails: the handler stores the percentage a \<open>step_update\<close>
  carries and computes nothing. Here the progress holds 250 after a \<open>step_update\<close>
  carrying 250, where one of its two steps is completed and the formula gives 50.
\<close>

theorem progress_percentage_counterexample:
  "map_option p_progress_percentage
     (currentProgress (handleMessage ''t1'' ''t1''
        (Some (exampleMessage ''step_update'' ''human_approval'' ''in_progress'' 250))
        exampleState)) = Some 250 \<and>
   map_option spec_progress_percentage
     (currentProgress (handleMessage ''t1'' ''t1''
        (Some (exampleMessage ''step_update'' ''human_approval'' ''in_progress'' 250))
        exampleState)) = Some 50 \<and>
   \<not> (250 \<le> (100::real))"
  by (simp add: handleMessage_def exampleState_def exampleClient_def exampleProgress_def
        exampleStep_def exampleMessage_def setCurrentProgress_def
        stepUpdateStep_def spec_progress_percentage_def completedSteps_def totalSteps_def
        completed_def round_def)

text \<open>
  C3, amended. At each run of the handler on a message, in a store with a current client
  of non-empty id and a progress, \<open>progress_percentage\<close> afterwards is the value the
  message carries if it is a \<open>step_update\<close>, 100 if it is an \<open>onboarding_complete\<close>, and
  the value before otherwise; it lies in \<open>[0, 100]\<close> afterwards whenever the value before
  does and the message, if a \<open>step_update\<close>, carries a value that does. Without a current
  client, with a client of empty id, or without a message, the handler leaves the store
  as it is.
\<close>

theorem progress_percentage_after_message:
  "(currentClient st = Some cc \<and> c_id cc \<noteq> [] \<and> currentProgress st = Some cp \<longrightarrow>
      (\<exists>cp'. currentProgress (handleMessage now1 now2 (Some msg) st) = Some cp' \<and>
         p_progress_percentage cp' =
           (if m_type msg = ''step_update'' then m_progress_percentage msg
            else if m_type msg = ''onboarding_complete'' then 100
            else p_progress_percentage cp) \<and>
         (0 \<le> p_progress_percentage cp \<and> p_progress_percentage cp \<le> 100 \<and>
          (m_type msg = ''step_update'' \<longrightarrow>
             0 \<le> m_progress_percentage msg \<and> m_progress_percentage msg \<le> 100) \<longrightarrow>
          0 \<le> p_progress_percentage cp' \<and> p_progress_percentage cp' \<le> 100))) \<and>
   (currentClient st = None \<or> (\<exists>cc. currentClient st = Some cc \<and> c_id cc = []) \<longrightarrow>
      handleMessage now1 now2 lastMessage st = st) \<and>
   handleMessage now1 now2 None st = st"
proof (intro conjI impI)
  assume a: "currentClient st = Some cc \<and> c_id cc \<noteq> [] \<and> currentProgress st = Some cp"
  then have cc: "currentClient st = Some cc" and id: "c_id cc \<noteq> []"
    and cp: "currentProgress st = Some cp"
    by simp_all
  from handleMessage_progress [OF cc id cp, of now1 now2 msg]
  obtain cp' where cp': "currentProgress (handleMessage now1 now2 (Some msg) st) = Some cp'"
    and pct: "p_progress_percentage cp' =
       (if m_type msg = ''step_update'' then m_progress_percentage msg
        else if m_type msg = ''onboarding_complete'' then 100
        else p_progress_percentage cp)"
    by blast
  have range: "0 \<le> p_progress_percentage cp \<and> p_progress_percentage cp \<le> 100 \<and>
          (m_type msg = ''step_update'' \<longrightarrow>
             0 \<le> m_progress_percentage msg \<and> m_progress_percentage msg \<le> 100) \<longrightarrow>
          0 \<le> p_progress_percentage cp' \<and> p_progress_percentage cp' \<le> 100"
    by (simp add: pct)
  from cp' pct range
  show "\<exists>cp'. currentProgress (handleMessage now1 now2 (Some msg) st) = Some cp' \<and>
         p_progress_percentage cp' =
           (if m_type msg = ''step_update'' then m_progress_percentage msg
            else if m_type msg = ''onboarding_complete'' then 100
            else p_progress_percentage cp) \<and>
         (0 \<le> p_progress_percentage cp \<and> p_progress_percentage cp \<le> 100 \<and>
          (m_type msg = ''step_update'' \<longrightarrow>
             0 \<le> m_progress_percentage msg \<and> m_progress_percentage msg \<le> 100) \<longrightarrow>
          0 \<le> p_progress_percentage cp' \<and> p_progress_percentage cp' \<le> 100)"
    by blast
next
  assume "currentClient st = None \<or> (\<exists>cc. currentClient st = Some cc \<and> c_id cc = [])"
  then show "handleMessage now1 now2 lastMessage st = st"
    by (rule handleMessage_unguarded)
next
  show "handleMessage now1 now2 None st = st"
    by (simp add: handleMessage_def)
qed

theorem progress_percentage_after_message_witness:
  "map_option p_progress_percentage
     (currentProgress (handleMessage ''t1'' ''t2''
        (Some (exampleMessage ''step_update'' ''human_approval'' ''completed'' 75))
        exampleState)) = Some 75 \<and>
   map_option p_progress_percentage
     (currentProgress (handleMessage ''t1'' ''t2''
        (Some (exampleMessage ''onboarding_complete'' [] [] 0))
        exampleState)) = Some 100 \<and>
   map_option p_progress_percentage
     (currentProgress (handleMessage ''t1'' ''t2''
        (Some (exampleMessage ''error'' [] [] 0))
        exampleState)) = Some 50"
proof -
  have hyp: "currentClient exampleState = Some exampleClient \<and> c_id exampleClient \<noteq> [] \<and>
      currentProgress exampleState = Some exampleProgress"
    by (simp add: exampleState_def exampleClient_def)
  have old: "p_progress_percentage exampleProgress = 50"
    by (simp add: exampleProgress_def)
  have shown: "map_option p_progress_percentage
       (currentProgress (handleMessage ''t1'' ''t2'' (Some (exampleMessage ty sid status pct))
          exampleState)) =
     Some (if ty = ''step_update'' then pct else if ty = ''onboarding_complete'' then 100 else 50)"
    for ty sid status pct
  proof -
    note inst = progress_percentage_after_message
      [of exampleState exampleClient exampleProgress "''t1''" "''t2''"
          "exampleMessage ty sid status pct" None]
    from mp [OF inst [THEN conjunct1] hyp]
    obtain cp' where
      "currentProgress (handleMessage ''t1'' ''t2'' (Some (exampleMessage ty sid status pct))
          exampleState) = Some cp'"
      "p_progress_percentage cp' =
         (if m_type (exampleMessage ty sid status pct) = ''step_update''
          then m_progress_percentage (exampleMessage ty sid status pct)
          else if m_type (exampleMessage ty sid status pct) = ''onboarding_complete'' then 100
          else p_progress_percentage exampleProgress)"
      by blast
    then show ?thesis
      by (simp add: old exampleMessage_def)
  qed
  show ?thesis
    by (simp add: shown)
qed

section \<open>The status dashboard\<close>

lemma renderSteps_length: "length (renderSteps p) = length (p_steps p)"
  by (simp add: renderSteps_def)

lemma renderSteps_nth:
  "i < length (p_steps p) \<Longrightarrow> renderSteps p ! i = renderStep p i (p_steps p ! i)"
  by (simp add: renderSteps_def nth_enumerate_eq)

lemma approvalOffered_iff:
  "approvalOffered (Some p) \<longleftrightarrow>
     (\<exists>step\<in>set (p_steps p). s_id step = ''human_approval'' \<and> s_status step = in_progress)"
proof -
  have "approvalOffered (Some p) \<longleftrightarrow> (\<exists>i < length (p_steps p). v_approvalButton (renderSteps p ! i))"
    by (simp add: approvalOffered_def StatusDashboard_def list_ex_length renderSteps_length)
  also have "\<dots> \<longleftrightarrow> (\<exists>i < length (p_steps p).
      s_id (p_steps p ! i) = ''human_approval'' \<and> s_status (p_steps p ! i) = in_progress)"
    by (auto simp: renderSteps_nth renderStep_def)
  also have "\<dots> \<longleftrightarrow> (\<exists>step\<in>set (p_steps p). s_id step = ''human_approval'' \<and> s_status step = in_progress)"
    by (metis in_set_conv_nth)
  finally show ?thesis .
qed

lemma in_progress_not_terminal: "in_progress \<noteq> completed" "in_progress \<noteq> failed"
  by (simp_all add: in_progress_def completed_def failed_def)

text \<open>
  C8. The dashboard shows the "Review & Approve" button under a step if and only if the
  step's id is \<open>human_approval\<close> and its status is \<open>in_progress\<close>; so the action is
  offered for a progress if and only if such a step is in it, and never without a
  progress. Once a \<open>step_update\<close> has set the step \<open>human_approval\<close> to \<open>completed\<close> or
  \<open>failed\<close>, the action is no longer offered.
\<close>

theorem approval_offered_iff_in_progress:
  "(approvalOffered (Some p) \<longleftrightarrow>
      (\<exists>step\<in>set (p_steps p). s_id step = ''human_approval'' \<and> s_status step = in_progress)) \<and>
   \<not> approvalOffered None \<and>
   length (StatusDashboard (Some p)) = length (p_steps p) \<and>
   (\<forall>i < length (p_steps p).
      v_approvalButton (StatusDashboard (Some p) ! i) \<longleftrightarrow>
        (s_id (p_steps p ! i) = ''human_approval'' \<and> s_status (p_steps p ! i) = in_progress)) \<and>
   (currentClient st = Some cc \<and> c_id cc \<noteq> [] \<and> currentProgress st = Some p \<and>
    m_type msg = ''step_update'' \<and> m_step_id msg = ''human_approval'' \<and>
    (m_step_status msg = completed \<or> m_step_status msg = failed) \<longrightarrow>
      \<not> approvalOffered (currentProgress (handleMessage now1 now2 (Some msg) st)))"
proof (intro conjI impI)
  show "approvalOffered (Some p) \<longleftrightarrow>
      (\<exists>step\<in>set (p_steps p). s_id step = ''human_approval'' \<and> s_status step = in_progress)"
    by (rule approvalOffered_iff)
  show "\<not> approvalOffered None"
    by (simp add: approvalOffered_def StatusDashboard_def)
  show "length (StatusDashboard (Some p)) = length (p_steps p)"
    by (simp add: StatusDashboard_def renderSteps_length)
  show "\<forall>i < length (p_steps p).
      v_approvalButton (StatusDashboard (Some p) ! i) \<longleftrightarrow>
        (s_id (p_steps p ! i) = ''human_approval'' \<and> s_status (p_steps p ! i) = in_progress)"
    by (simp add: StatusDashboard_def renderSteps_nth renderStep_def)
next
  assume a: "currentClient st = Some cc \<and> c_id cc \<noteq> [] \<and> currentProgress st = Some p \<and>
    m_type msg = ''step_update'' \<and> m_step_id msg = ''human_approval'' \<and>
    (m_step_status msg = completed \<or> m_step_status msg = failed)"
  then have cc: "currentClient st = Some cc" and id: "c_id cc \<noteq> []" and cp: "currentProgress st = Some p"
    by simp_all
  from handleMessage_progress [OF cc id cp, of now1 now2 msg] a
  obtain cp' where cp': "currentProgress (handleMessage now1 now2 (Some msg) st) = Some cp'"
    and steps: "p_steps cp' = map (stepUpdateStep msg) (p_steps p)"
    by auto
  have "\<not> (\<exists>step\<in>set (p_steps cp'). s_id step = ''human_approval'' \<and> s_status step = in_progress)"
    using a in_progress_not_terminal
    by (auto simp: steps stepUpdateStep_id stepUpdateStep_status)
  then show "\<not> approvalOffered (currentProgress (handleMessage now1 now2 (Some msg) st))"
    by (simp add: cp' approvalOffered_iff)
qed

theorem approval_offered_iff_in_progress_witness:
  "map v_approvalButton (StatusDashboard (Some exampleProgress)) = [False, True] \<and>
   approvalOffered (Some exampleProgress) \<and>
   \<not> approvalOffered (currentProgress (handleMessage ''t1'' ''t1''
        (Some (exampleMessage ''step_update'' ''human_approval'' ''completed'' 100)) exampleState))"
proof -
  let ?msg = "exampleMessage ''step_update'' ''human_approval'' ''completed'' 100"
  have st: "currentClient exampleState = Some exampleClient \<and> c_id exampleClient \<noteq> [] \<and>
      currentProgress exampleState = Some exampleProgress"
    by (simp add: exampleState_def exampleClient_def)
  have msg: "m_type ?msg = ''step_update'' \<and> m_step_id ?msg = ''human_approval'' \<and>
      (m_step_status ?msg = completed \<or> m_step_status ?msg = failed)"
    by (simp add: exampleMessage_def completed_def)
  have steps: "p_steps exampleProgress =
      [exampleStep ''create_folder'' ''completed'', exampleStep ''human_approval'' ''in_progress'']"
    by (simp add: exampleProgress_def)
  have ex: "\<exists>step\<in>set (p_steps exampleProgress).
      s_id step = ''human_approval'' \<and> s_status step = in_progress"
    by (simp add: steps exampleStep_def in_progress_def)
  note inst = approval_offered_iff_in_progress
      [of exampleProgress exampleState exampleClient ?msg "''t1''" "''t1''"]
  from inst have len: "length (StatusDashboard (Some exampleProgress)) = 2"
    by (simp add: steps)
  from inst have b0: "\<not> v_approvalButton (StatusDashboard (Some exampleProgress) ! 0)"
    by (simp add: steps exampleStep_def)
  from inst have "v_approvalButton (StatusDashboard (Some exampleProgress) ! 1) \<longleftrightarrow>
      (s_id (p_steps exampleProgress ! 1) = ''human_approval'' \<and>
       s_status (p_steps exampleProgress ! 1) = in_progress)"
    by (simp add: steps)
  then have b1: "v_approvalButton (StatusDashboard (Some exampleProgress) ! 1)"
    by (simp add: steps exampleStep_def in_progress_def)
  from len obtain a b where ab: "StatusDashboard (Some exampleProgress) = [a, b]"
    by (auto simp: length_Suc_conv numeral_2_eq_2)
  from inst ex have off: "approvalOffered (Some exampleProgress)"
    by blast
  from inst st msg have gone: "\<not> approvalOffered (currentProgress (handleMessage ''t1'' ''t1''
        (Some ?msg) exampleState))"
    by blast
  from b0 b1 ab off gone show ?thesis by simp
qed

section \<open>The WebSocket hook\<close>

lemma connect_consistent: "refsConsistent env (connect env c h)"
  by (auto simp: connect_def Let_def refsConsistent_def wsUrlRejected_def split: option.splits)

lemma disconnect_dormant: "refsConsistent env h \<Longrightarrow> dormant env (disconnect h)"
  by (auto simp: disconnect_def dormant_def refsConsistent_def wsUrlRejected_def split: option.splits)

lemma dormant_consistent: "dormant env h \<Longrightarrow> refsConsistent env h"
  by (simp add: dormant_def refsConsistent_def)

lemma refs_setReadyState [simp]:
  "ws_socketRef (setReadyState i rs h) = ws_socketRef h"
  "ws_clientIdRef (setReadyState i rs h) = ws_clientIdRef h"
  "ws_timers (setReadyState i rs h) = ws_timers h"
  "ws_lastMessage (setReadyState i rs h) = ws_lastMessage h"
  "length (ws_sockets (setReadyState i rs h)) = length (ws_sockets h)"
  by (simp_all add: setReadyState_def)

lemma refs_onclose [simp]:
  "ws_socketRef (onclose code h) = ws_socketRef h"
  "ws_clientIdRef (onclose code h) = ws_clientIdRef h"
  "ws_sockets (onclose code h) = ws_sockets h"
  "ws_lastMessage (onclose code h) = ws_lastMessage h"
  by (simp_all add: onclose_def Let_def)

lemma refs_onopen [simp]:
  "ws_socketRef (onopen h) = ws_socketRef h"
  "ws_clientIdRef (onopen h) = ws_clientIdRef h"
  "ws_sockets (onopen h) = ws_sockets h"
  by (simp_all add: onopen_def)

lemma refs_onerror [simp]:
  "ws_socketRef (onerror h) = ws_socketRef h"
  "ws_clientIdRef (onerror h) = ws_clientIdRef h"
  "ws_sockets (onerror h) = ws_sockets h"
  by (simp_all add: onerror_def)

lemma refs_onmessage [simp]:
  "ws_socketRef (onmessage c parsed raw now h) = ws_socketRef h"
  "ws_clientIdRef (onmessage c parsed raw now h) = ws_clientIdRef h"
  "ws_sockets (onmessage c parsed raw now h) = ws_sockets h"
  by (simp_all add: onmessage_def split: option.splits)

lemma reconnectCallback_consistent:
  "refsConsistent env h \<Longrightarrow> refsConsistent env (reconnectCallback env h)"
  by (simp add: reconnectCallback_def connect_consistent split: option.splits)

lemma hookStep_consistent:
  "refsConsistent env h \<Longrightarrow> refsConsistent env (hookStep env e h)"
proof (cases e)
  case (Connect c)
  then show ?thesis by (simp add: connect_consistent)
next
  case Disconnect
  assume "refsConsistent env h"
  then show ?thesis using Disconnect
    by (simp add: disconnect_dormant dormant_consistent)
next
  case Unmount
  assume "refsConsistent env h"
  then show ?thesis using Unmount
    by (simp add: disconnect_dormant dormant_consistent)
next
  case (TimerFired k)
  assume "refsConsistent env h"
  then have "refsConsistent env (h\<lparr>ws_timers := take k (ws_timers h) @ drop (Suc k) (ws_timers h)\<rparr>)"
    by (simp add: refsConsistent_def wsUrlRejected_def)
  then show ?thesis using TimerFired \<open>refsConsistent env h\<close>
    by (simp add: reconnectCallback_consistent)
qed (simp_all add: refsConsistent_def wsUrlRejected_def)

lemma hookRun_consistent:
  "refsConsistent env h \<Longrightarrow> refsConsistent env (hookRun env es h)"
  by (induction es arbitrary: h) (simp_all add: hookStep_consistent)

lemma initialHook_consistent: "refsConsistent env initialHook"
  by (simp add: refsConsistent_def wsUrlRejected_def initialHook_def)

lemma connect_rejected:
  "\<not> env_urlAccepted env (WS_BASE_URL env @ ''/ws/'' @ c) \<Longrightarrow> ws_socketRef h = None \<Longrightarrow>
     connect env c h = h\<lparr>ws_clientIdRef := Some c, ws_isConnected := False\<rparr>"
  by (simp add: connect_def Let_def)

lemma dormant_step:
  assumes "dormant env h" and "\<not> isConnectEvent e"
  shows "dormant env (hookStep env e h) \<and>
         length (ws_sockets (hookStep env e h)) = length (ws_sockets h)"
proof (cases e)
  case (Connect c)
  with assms(2) show ?thesis by (simp add: isConnectEvent_def)
next
  case Disconnect
  with assms(1) show ?thesis
    by (simp add: dormant_def disconnect_def wsUrlRejected_def)
next
  case Unmount
  with assms(1) show ?thesis
    by (simp add: dormant_def disconnect_def wsUrlRejected_def)
next
  case (TimerFired k)
  let ?h = "h\<lparr>ws_timers := take k (ws_timers h) @ drop (Suc k) (ws_timers h)\<rparr>"
  have d: "dormant env ?h"
    using assms(1) by (simp add: dormant_def wsUrlRejected_def)
  have "dormant env (reconnectCallback env ?h) \<and>
        length (ws_sockets (reconnectCallback env ?h)) = length (ws_sockets h)"
  proof (cases "ws_clientIdRef ?h")
    case None
    then show ?thesis using d by (simp add: reconnectCallback_def)
  next
    case (Some c)
    with d have rej: "\<not> env_urlAccepted env (WS_BASE_URL env @ ''/ws/'' @ c)"
      and nosock: "ws_socketRef ?h = None"
      by (simp_all add: dormant_def wsUrlRejected_def)
    have "dormant env (h\<lparr>ws_timers := take k (ws_timers h) @ drop (Suc k) (ws_timers h),
            ws_clientIdRef := Some c, ws_isConnected := False\<rparr>)"
      using rej nosock by (simp add: dormant_def wsUrlRejected_def)
    then show ?thesis
      using Some d connect_rejected [OF rej nosock]
      by (simp add: reconnectCallback_def)
  qed
  then show ?thesis using TimerFired assms(1) by simp
next
  case (SocketOpen i)
  with assms(1) show ?thesis by (simp add: dormant_def wsUrlRejected_def)
next
  case (SocketMessage i parsed raw now)
  with assms(1) show ?thesis by (simp add: dormant_def wsUrlRejected_def)
next
  case (SocketClose i code)
  with assms(1) show ?thesis by (simp add: dormant_def wsUrlRejected_def)
next
  case (SocketError i)
  with assms(1) show ?thesis by (simp add: dormant_def wsUrlRejected_def)
qed

lemma dormant_run:
  assumes "dormant env h" and "\<forall>e\<in>set es. \<not> isConnectEvent e"
  shows "dormant env (hookRun env es h) \<and>
         length (ws_sockets (hookRun env es h)) = length (ws_sockets h)"
  using assms
proof (induction es arbitrary: h)
  case Nil
  then show ?case by simp
next
  case (Cons e es)
  from Cons.prems have e: "\<not> isConnectEvent e" and es: "\<forall>e\<in>set es. \<not> isConnectEvent e"
    by simp_all
  from dormant_step [OF Cons.prems(1) e]
  have d: "dormant env (hookStep env e h)"
    and l: "length (ws_sockets (hookStep env e h)) = length (ws_sockets h)"
    by simp_all
  from Cons.IH [OF d es] l show ?case by simp
qed

lemma connect_clientIdRef: "ws_clientIdRef (connect env c h) = Some c"
  by (simp add: connect_def Let_def split: option.splits)

lemma clientIdRef_step:
  assumes "ws_clientIdRef h = Some c" and "c \<noteq> []" and "\<not> isOwnerEvent e"
  shows "ws_clientIdRef (hookStep env e h) = Some c"
  using assms
  by (cases e) (simp_all add: isOwnerEvent_def reconnectCallback_def connect_clientIdRef)

lemma clientIdRef_run:
  assumes "ws_clientIdRef h = Some c" and "c \<noteq> []" and "\<forall>e\<in>set es. \<not> isOwnerEvent e"
  shows "ws_clientIdRef (hookRun env es h) = Some c"
  using assms
  by (induction es arbitrary: h) (simp_all add: clientIdRef_step)

lemma onclose_schedules:
  assumes "ws_clientIdRef h = Some c" and "c \<noteq> []" and "code \<noteq> 1000" and "i < length (ws_sockets h)"
  shows "ws_timers (hookStep env (SocketClose i code) h) = ws_timers h @ [3000]"
    and "\<not> ws_isConnected (hookStep env (SocketClose i code) h)"
    and "ws_lastMessage (hookStep env (SocketClose i code) h) = ws_lastMessage h"
    and "ws_clientIdRef (hookStep env (SocketClose i code) h) = Some c"
    and "hookStep env (TimerFired (length (ws_timers h))) (hookStep env (SocketClose i code) h) =
           connect env c ((hookStep env (SocketClose i code) h)\<lparr>ws_timers := ws_timers h\<rparr>)"
  using assms
  by (simp_all add: onclose_def Let_def clientIdRefSet_def reconnectCallback_def)

lemma example_connect:
  "connect exampleEnv ''c1'' initialHook =
     exampleHook False (Some 0) (Some ''c1'') [exampleSocket CONNECTING] []"
  by (simp add: connect_def Let_def initialHook_def exampleEnv_def WS_BASE_URL_def
        exampleHook_def exampleSocket_def)

lemma example_open:
  "hookStep exampleEnv (SocketOpen 0)
     (exampleHook False (Some 0) (Some ''c1'') [exampleSocket CONNECTING] []) =
   exampleHook True (Some 0) (Some ''c1'') [exampleSocket OPEN] []"
  by (simp add: onopen_def setReadyState_def exampleHook_def exampleSocket_def)

lemma example_close:
  "hookStep exampleEnv (SocketClose 0 1006)
     (exampleHook True (Some 0) (Some ''c1'') [exampleSocket OPEN] []) =
   exampleHook False (Some 0) (Some ''c1'') [exampleSocket CLOSED] [3000]"
  by (simp add: onclose_def Let_def clientIdRefSet_def setReadyState_def exampleHook_def
        exampleSocket_def)

lemma example_reconnect:
  "connect exampleEnv ''c1''
     (exampleHook False (Some 0) (Some ''c1'') [exampleSocket CLOSED] []) =
   exampleHook False (Some 1) (Some ''c1'') [exampleSocket CLOSED, exampleSocket CONNECTING] []"
  by (simp add: connect_def Let_def exampleEnv_def WS_BASE_URL_def exampleHook_def
        exampleSocket_def)

lemma example_drop_connecting:
  "hookStep exampleEnv (SocketClose 0 1006)
     (exampleHook False (Some 0) (Some ''c1'') [exampleSocket CONNECTING] []) =
   exampleHook False (Some 0) (Some ''c1'') [exampleSocket CLOSED] [3000]"
  by (simp add: onclose_def Let_def clientIdRefSet_def setReadyState_def exampleHook_def
        exampleSocket_def)

lemma example_fire:
  "hookStep exampleEnv (TimerFired 0)
     (exampleHook False (Some 0) (Some ''c1'') [exampleSocket CLOSED] [3000]) =
   exampleHook False (Some 1) (Some ''c1'') [exampleSocket CLOSED, exampleSocket CONNECTING] []"
  by (simp add: reconnectCallback_def connect_def Let_def exampleEnv_def WS_BASE_URL_def
        exampleHook_def exampleSocket_def)

lemma example_drop_again:
  "hookStep exampleEnv (SocketClose 1 1006)
     (exampleHook False (Some 1) (Some ''c1'') [exampleSocket CLOSED, exampleSocket CONNECTING] []) =
   exampleHook False (Some 1) (Some ''c1'') [exampleSocket CLOSED, exampleSocket CLOSED] [3000]"
  by (simp add: onclose_def Let_def clientIdRefSet_def setReadyState_def exampleHook_def
        exampleSocket_def)

lemma example_fire_again:
  "hookStep exampleEnv (TimerFired 0)
     (exampleHook False (Some 1) (Some ''c1'') [exampleSocket CLOSED, exampleSocket CLOSED] [3000]) =
   exampleHook False (Some 2) (Some ''c1'')
     [exampleSocket CLOSED, exampleSocket CLOSED, exampleSocket CONNECTING] []"
  by (simp add: reconnectCallback_def connect_def Let_def exampleEnv_def WS_BASE_URL_def
        exampleHook_def exampleSocket_def)

lemma example_drop_third:
  "hookStep exampleEnv (SocketClose 2 1006)
     (exampleHook False (Some 2) (Some ''c1'')
        [exampleSocket CLOSED, exampleSocket CLOSED, exampleSocket CONNECTING] []) =
   exampleHook False (Some 2) (Some ''c1'')
     [exampleSocket CLOSED, exampleSocket CLOSED, exampleSocket CLOSED] [3000]"
  by (simp add: onclose_def Let_def clientIdRefSet_def setReadyState_def exampleHook_def
        exampleSocket_def)

text \<open>
  C5, as the claim states it, fails in one point: the reconnection is scheduled with no
  backoff. Here three attempts in a row are dropped; the first, the second and the third
  drop each schedule the reconnect after the same 3000 ms.
\<close>

theorem reconnect_backoff_counterexample:
  "ws_timers (hookRun exampleEnv [Connect ''c1'', SocketClose 0 1006] initialHook) = [3000] \<and>
   ws_timers (hookRun exampleEnv
     [Connect ''c1'', SocketClose 0 1006, TimerFired 0, SocketClose 1 1006] initialHook) = [3000] \<and>
   ws_timers (hookRun exampleEnv
     [Connect ''c1'', SocketClose 0 1006, TimerFired 0, SocketClose 1 1006, TimerFired 0,
      SocketClose 2 1006] initialHook) = [3000]"
proof -
  have t: "ws_timers (exampleHook conn sref cref socks [3000]) = [3000]" for conn sref cref socks
    by (simp add: exampleHook_def)
  have "hookRun exampleEnv [Connect ''c1'', SocketClose 0 1006] initialHook =
      exampleHook False (Some 0) (Some ''c1'') [exampleSocket CLOSED] [3000]"
    by (simp only: hookRun.simps hookStep.simps(1) example_connect example_drop_connecting)
  moreover have "hookRun exampleEnv
      [Connect ''c1'', SocketClose 0 1006, TimerFired 0, SocketClose 1 1006] initialHook =
      exampleHook False (Some 1) (Some ''c1'') [exampleSocket CLOSED, exampleSocket CLOSED] [3000]"
    by (simp only: hookRun.simps hookStep.simps(1) example_connect example_drop_connecting
          example_fire example_drop_again)
  moreover have "hookRun exampleEnv
      [Connect ''c1'', SocketClose 0 1006, TimerFired 0, SocketClose 1 1006, TimerFired 0,
       SocketClose 2 1006] initialHook =
      exampleHook False (Some 2) (Some ''c1'')
        [exampleSocket CLOSED, exampleSocket CLOSED, exampleSocket CLOSED] [3000]"
    by (simp only: hookRun.simps hookStep.simps(1) example_connect example_drop_connecting
          example_fire example_drop_again example_fire_again example_drop_third)
  ultimately show ?thesis
    by (simp only: t)
qed

text \<open>
  C5, amended. First part: after \<open>connect clientId\<close> (a non-empty id) and any events of
  the sockets and timers, with no call of the owner in between, a socket that closes with
  a code other than 1000 makes the hook schedule a reconnect after a fixed delay of
  3000 ms, the same at every drop; the hook is marked disconnected, \<open>lastMessage\<close> is
  untouched, so the page's handler sees no message and sets no error; and when that
  timer fires, the hook runs \<open>connect clientId\<close> again. Second part: from any state the
  hook can reach, after \<open>disconnect\<close> no event constructs a socket, and the hook holds
  none, whatever follows short of a new \<open>connect\<close> by the owner: sockets closing with any
  code, pending timers firing, \<open>disconnect\<close> called again, the unmount.
\<close>

theorem reconnect_unless_manual_disconnect:
  "((\<forall>e\<in>set es. \<not> isOwnerEvent e) \<and> clientId \<noteq> [] \<and> code \<noteq> 1000 \<and>
      h = hookRun env es (connect env clientId h0) \<and> i < length (ws_sockets h) \<longrightarrow>
      ws_timers (hookStep env (SocketClose i code) h) = ws_timers h @ [3000] \<and>
      \<not> ws_isConnected (hookStep env (SocketClose i code) h) \<and>
      ws_lastMessage (hookStep env (SocketClose i code) h) = ws_lastMessage h \<and>
      ws_clientIdRef (hookStep env (SocketClose i code) h) = Some clientId \<and>
      hookStep env (TimerFired (length (ws_timers h))) (hookStep env (SocketClose i code) h) =
        connect env clientId ((hookStep env (SocketClose i code) h)\<lparr>ws_timers := ws_timers h\<rparr>)) \<and>
   ((\<forall>e\<in>set es'. \<not> isConnectEvent e) \<and> g = hookRun env es0 initialHook \<longrightarrow>
      length (ws_sockets (hookRun env es' (disconnect g))) = length (ws_sockets g) \<and>
      ws_socketRef (hookRun env es' (disconnect g)) = None)"
proof (intro conjI impI)
  assume a: "(\<forall>e\<in>set es. \<not> isOwnerEvent e) \<and> clientId \<noteq> [] \<and> code \<noteq> 1000 \<and>
      h = hookRun env es (connect env clientId h0) \<and> i < length (ws_sockets h)"
  then have ref: "ws_clientIdRef h = Some clientId"
    using clientIdRef_run [of "connect env clientId h0" clientId es env]
    by (simp add: connect_clientIdRef)
  from a have c: "clientId \<noteq> []" and code: "code \<noteq> 1000" and i: "i < length (ws_sockets h)"
    by blast+
  show "ws_timers (hookStep env (SocketClose i code) h) = ws_timers h @ [3000]"
    by (rule onclose_schedules [OF ref c code i])
  show "\<not> ws_isConnected (hookStep env (SocketClose i code) h)"
    by (rule onclose_schedules [OF ref c code i])
  show "ws_lastMessage (hookStep env (SocketClose i code) h) = ws_lastMessage h"
    by (rule onclose_schedules [OF ref c code i])
  show "ws_clientIdRef (hookStep env (SocketClose i code) h) = Some clientId"
    by (rule onclose_schedules [OF ref c code i])
  show "hookStep env (TimerFired (length (ws_timers h))) (hookStep env (SocketClose i code) h) =
        connect env clientId ((hookStep env (SocketClose i code) h)\<lparr>ws_timers := ws_timers h\<rparr>)"
    by (rule onclose_schedules [OF ref c code i])
next
  assume b: "(\<forall>e\<in>set es'. \<not> isConnectEvent e) \<and> g = hookRun env es0 initialHook"
  then have "refsConsistent env g"
    by (simp add: hookRun_consistent initialHook_consistent)
  then have d: "dormant env (disconnect g)"
    by (rule disconnect_dormant)
  from b have es': "\<forall>e\<in>set es'. \<not> isConnectEvent e" by simp
  have len: "length (ws_sockets (disconnect g)) = length (ws_sockets g)"
    by (simp add: disconnect_def split: option.splits)
  from dormant_run [OF d es'] len
  show "length (ws_sockets (hookRun env es' (disconnect g))) = length (ws_sockets g)"
    by simp
  from dormant_run [OF d es']
  show "ws_socketRef (hookRun env es' (disconnect g)) = None"
    by (simp add: dormant_def)
qed

theorem reconnect_unless_manual_disconnect_witness:
  "hookRun exampleEnv [Connect ''c1'', SocketOpen 0, SocketClose 0 1006] initialHook =
     exampleHook False (Some 0) (Some ''c1'') [exampleSocket CLOSED] [3000] \<and>
   hookRun exampleEnv [Connect ''c1'', SocketOpen 0, SocketClose 0 1006, TimerFired 0] initialHook =
     exampleHook False (Some 1) (Some ''c1'') [exampleSocket CLOSED, exampleSocket CONNECTING] [] \<and>
   length (ws_sockets (hookRun exampleEnv
     [Connect ''c1'', SocketOpen 0, Disconnect, SocketClose 0 1006, TimerFired 0, Disconnect,
      Unmount] initialHook)) = 1"
proof -
  let ?h = "exampleHook True (Some 0) (Some ''c1'') [exampleSocket OPEN] []"
  let ?h' = "exampleHook False (Some 0) (Some ''c1'') [exampleSocket CLOSED] [3000]"
  let ?es' = "[SocketClose 0 1006, TimerFired 0, Disconnect, Unmount]"
  have run: "hookRun exampleEnv [SocketOpen 0] (connect exampleEnv ''c1'' initialHook) = ?h"
    by (simp only: hookRun.simps example_connect example_open)
  have run0: "hookRun exampleEnv [Connect ''c1'', SocketOpen 0] initialHook = ?h"
    by (simp only: hookRun.simps hookStep.simps(1) example_connect example_open)
  have sel: "ws_timers ?h = []" "length (ws_sockets ?h) = 1"
    by (simp_all add: exampleHook_def)
  have hyp1: "(\<forall>e\<in>set [SocketOpen 0]. \<not> isOwnerEvent e) \<and> ''c1'' \<noteq> [] \<and> (1006::nat) \<noteq> 1000 \<and>
      ?h = hookRun exampleEnv [SocketOpen 0] (connect exampleEnv ''c1'' initialHook) \<and>
      0 < length (ws_sockets ?h)"
  proof (intro conjI)
    show "\<forall>e\<in>set [SocketOpen 0]. \<not> isOwnerEvent e" by (simp add: isOwnerEvent_def)
    show "''c1'' \<noteq> []" by simp
    show "(1006::nat) \<noteq> 1000" by simp
    show "?h = hookRun exampleEnv [SocketOpen 0] (connect exampleEnv ''c1'' initialHook)"
      by (rule run [symmetric])
    show "0 < length (ws_sockets ?h)" by (simp add: sel)
  qed
  have hyp2: "(\<forall>e\<in>set ?es'. \<not> isConnectEvent e) \<and>
      ?h = hookRun exampleEnv [Connect ''c1'', SocketOpen 0] initialHook"
  proof (intro conjI)
    show "\<forall>e\<in>set ?es'. \<not> isConnectEvent e" by (simp add: isConnectEvent_def)
    show "?h = hookRun exampleEnv [Connect ''c1'', SocketOpen 0] initialHook"
      by (rule run0 [symmetric])
  qed
  note inst = reconnect_unless_manual_disconnect
     [of "[SocketOpen 0]" "''c1''" 1006 ?h exampleEnv initialHook 0 ?es' ?h
         "[Connect ''c1'', SocketOpen 0]"]
  have fire: "hookStep exampleEnv (TimerFired (length (ws_timers ?h)))
          (hookStep exampleEnv (SocketClose 0 1006) ?h) =
        connect exampleEnv ''c1''
          ((hookStep exampleEnv (SocketClose 0 1006) ?h)\<lparr>ws_timers := ws_timers ?h\<rparr>)"
    by (rule mp [OF inst [THEN conjunct1] hyp1, THEN conjunct2, THEN conjunct2, THEN conjunct2,
          THEN conjunct2])
  have quiet: "length (ws_sockets (hookRun exampleEnv ?es' (disconnect ?h))) = length (ws_sockets ?h)"
    by (rule mp [OF inst [THEN conjunct2] hyp2, THEN conjunct1])
  have c1: "hookRun exampleEnv [Connect ''c1'', SocketOpen 0, SocketClose 0 1006] initialHook = ?h'"
    by (simp only: hookRun.simps hookStep.simps(1) example_connect example_open example_close)
  have upd: "?h'\<lparr>ws_timers := []\<rparr> =
      exampleHook False (Some 0) (Some ''c1'') [exampleSocket CLOSED] []"
    by (simp add: exampleHook_def)
  have c2: "hookRun exampleEnv [Connect ''c1'', SocketOpen 0, SocketClose 0 1006, TimerFired 0]
      initialHook =
     exampleHook False (Some 1) (Some ''c1'') [exampleSocket CLOSED, exampleSocket CONNECTING] []"
  proof -
    have "hookRun exampleEnv [Connect ''c1'', SocketOpen 0, SocketClose 0 1006, TimerFired 0]
        initialHook =
      hookStep exampleEnv (TimerFired (length (ws_timers ?h)))
        (hookStep exampleEnv (SocketClose 0 1006) ?h)"
      by (simp only: hookRun.simps hookStep.simps(1) example_connect example_open sel list.size)
    also have "\<dots> = connect exampleEnv ''c1''
          ((hookStep exampleEnv (SocketClose 0 1006) ?h)\<lparr>ws_timers := ws_timers ?h\<rparr>)"
      by (rule fire)
    also have "\<dots> = exampleHook False (Some 1) (Some ''c1'')
        [exampleSocket CLOSED, exampleSocket CONNECTING] []"
      by (simp only: example_close sel upd example_reconnect)
    finally show ?thesis .
  qed
  have c3: "length (ws_sockets (hookRun exampleEnv
     [Connect ''c1'', SocketOpen 0, Disconnect, SocketClose 0 1006, TimerFired 0, Disconnect,
      Unmount] initialHook)) = 1"
  proof -
    have "hookRun exampleEnv [Connect ''c1'', SocketOpen 0, Disconnect, SocketClose 0 1006,
        TimerFired 0, Disconnect, Unmount] initialHook = hookRun exampleEnv ?es' (disconnect ?h)"
      by (simp only: hookRun.simps hookStep.simps(1,2) example_connect example_open)
    then show ?thesis using quiet sel by simp
  qed
  from c1 c2 c3 show ?thesis by (intro conjI)
qed

end
